theory Spec2Isabelle
  imports Complex_Main
begin

section \<open>JavaScript strings and their UTF-8 coding\<close>

text \<open>
  A JavaScript string is a sequence of UTF-16 code units (numbers below \<open>0x10000\<close>).
  It is well formed (\<open>String.prototype.isWellFormed\<close>) when every surrogate is part of
  a pair, a high surrogate followed by a low one. A \<open>Buffer\<close> is a list of bytes, one
  \<^typ>\<open>char\<close> per byte; the hex strings and blobs the code builds and parses are
  lists of ASCII characters.
\<close>

type_synonym jsstring = "nat list"

definition high_surrogate :: "nat \<Rightarrow> bool" where
  "high_surrogate u = (0xD800 \<le> u \<and> u \<le> 0xDBFF)"

definition low_surrogate :: "nat \<Rightarrow> bool" where
  "low_surrogate u = (0xDC00 \<le> u \<and> u \<le> 0xDFFF)"

fun well_formed :: "jsstring \<Rightarrow> bool" where
  "well_formed [] = True"
| "well_formed [u] = (u < 0x10000 \<and> \<not> high_surrogate u \<and> \<not> low_surrogate u)"
| "well_formed (u # v # rest) =
     (if high_surrogate u then low_surrogate v \<and> well_formed rest
      else u < 0x10000 \<and> \<not> low_surrogate u \<and> well_formed (v # rest))"

text \<open>
  \<open>cipher.update(data, 'utf8', ...)\<close> encodes the string in UTF-8: a surrogate pair
  is one code point of four bytes, and a surrogate that is not part of a pair is encoded
  as U+FFFD, the bytes \<open>EF BF BD\<close>.
\<close>

definition utf8_of_code_point :: "nat \<Rightarrow> nat list" where
  "utf8_of_code_point cp =
     (if cp < 0x80 then [cp]
      else if cp < 0x800 then [0xC0 + cp div 64, 0x80 + cp mod 64]
      else if cp < 0x10000 then [0xE0 + cp div 4096, 0x80 + cp div 64 mod 64, 0x80 + cp mod 64]
      else [0xF0 + cp div 262144, 0x80 + cp div 4096 mod 64, 0x80 + cp div 64 mod 64,
            0x80 + cp mod 64])"

fun utf8_bytes :: "jsstring \<Rightarrow> nat list" where
  "utf8_bytes [] = []"
| "utf8_bytes [u] =
     (if high_surrogate u \<or> low_surrogate u then [0xEF, 0xBF, 0xBD] else utf8_of_code_point u)"
| "utf8_bytes (u # v # rest) =
     (if high_surrogate u \<and> low_surrogate v
      then utf8_of_code_point (0x10000 + (u - 0xD800) * 1024 + (v - 0xDC00)) @ utf8_bytes rest
      else (if high_surrogate u \<or> low_surrogate u then [0xEF, 0xBF, 0xBD]
            else utf8_of_code_point u) @ utf8_bytes (v # rest))"

definition utf8_encode :: "jsstring \<Rightarrow> string" where
  "utf8_encode s = map char_of (utf8_bytes s)"

text \<open>
  \<open>decipher.update(..., 'utf8')\<close> and \<open>decipher.final('utf8')\<close> together decode the
  plaintext bytes as UTF-8. \<open>utf8_step b bs\<close> reads the sequence that starts with the
  byte \<open>b\<close>: it gives the code units of the code point, or U+FFFD for a sequence that
  is not valid, and the number of bytes of \<open>bs\<close> that belong to it (an invalid sequence
  ends before the first byte that cannot continue it).
\<close>

definition continuation :: "nat \<Rightarrow> bool" where
  "continuation b = (0x80 \<le> b \<and> b \<le> 0xBF)"

definition second_byte :: "nat \<Rightarrow> nat \<Rightarrow> bool" where
  "second_byte lead b =
     (if lead = 0xE0 then 0xA0 \<le> b \<and> b \<le> 0xBF
      else if lead = 0xED then 0x80 \<le> b \<and> b \<le> 0x9F
      else if lead = 0xF0 then 0x90 \<le> b \<and> b \<le> 0xBF
      else if lead = 0xF4 then 0x80 \<le> b \<and> b \<le> 0x8F
      else continuation b)"

definition units_of_code_point :: "nat \<Rightarrow> jsstring" where
  "units_of_code_point cp =
     (if cp < 0x10000 then [cp]
      else [0xD800 + (cp - 0x10000) div 1024, 0xDC00 + (cp - 0x10000) mod 1024])"

definition utf8_step :: "nat \<Rightarrow> nat list \<Rightarrow> jsstring \<times> nat" where
  "utf8_step b bs =
     (if b < 0x80 then ([b], 0)
      else if 0xC2 \<le> b \<and> b \<le> 0xDF then
        (case bs of
           c # _ \<Rightarrow>
             if continuation c then ([(b - 0xC0) * 64 + (c - 0x80)], 1) else ([0xFFFD], 0)
         | [] \<Rightarrow> ([0xFFFD], 0))
      else if 0xE0 \<le> b \<and> b \<le> 0xEF then
        (case bs of
           c # d # _ \<Rightarrow>
             if \<not> second_byte b c then ([0xFFFD], 0)
             else if continuation d
             then ([(b - 0xE0) * 4096 + (c - 0x80) * 64 + (d - 0x80)], 2)
             else ([0xFFFD], 1)
         | [c] \<Rightarrow> ([0xFFFD], if second_byte b c then 1 else 0)
         | [] \<Rightarrow> ([0xFFFD], 0))
      else if 0xF0 \<le> b \<and> b \<le> 0xF4 then
        (case bs of
           c # d # e # _ \<Rightarrow>
             if \<not> second_byte b c then ([0xFFFD], 0)
             else if \<not> continuation d then ([0xFFFD], 1)
             else if continuation e
             then (units_of_code_point
                     ((b - 0xF0) * 262144 + (c - 0x80) * 4096 + (d - 0x80) * 64 + (e - 0x80)), 3)
             else ([0xFFFD], 2)
         | [c, d] \<Rightarrow>
             ([0xFFFD], if \<not> second_byte b c then 0 else if continuation d then 2 else 1)
         | [c] \<Rightarrow> ([0xFFFD], if second_byte b c then 1 else 0)
         | [] \<Rightarrow> ([0xFFFD], 0))
      else ([0xFFFD], 0))"

fun utf8_units :: "nat list \<Rightarrow> jsstring" where
  "utf8_units [] = []"
| "utf8_units (b # bs) = (case utf8_step b bs of (units, n) \<Rightarrow> units @ utf8_units (drop n bs))"

definition utf8_decode :: "string \<Rightarrow> jsstring" where
  "utf8_decode bytes = utf8_units (map of_char bytes)"

section \<open>Hex coding and \<open>split\<close>\<close>

text \<open>
  \<open>hexDigit\<close> and \<open>toHex\<close> are the \<open>'hex'\<close> output of \<open>cipher.update\<close>,
  \<open>cipher.final\<close> and \<open>buf.toString('hex')\<close> (lower case digits);
  \<open>unhex\<close> and \<open>fromHex\<close> are \<open>Buffer.from(s, 'hex')\<close>: the decoder reads two
  characters at a time, accepts both cases, and stops at the first pair that is not two
  hex digits (a single trailing character is dropped). It never throws on a string.
\<close>

definition hexDigit :: "nat \<Rightarrow> char" where
  "hexDigit n = (if n < 10 then char_of (48 + n) else char_of (87 + n))"

definition unhex :: "char \<Rightarrow> nat option" where
  "unhex c =
     (let n = (of_char c :: nat) in
      if 48 \<le> n \<and> n \<le> 57 then Some (n - 48)
      else if 97 \<le> n \<and> n \<le> 102 then Some (n - 87)
      else if 65 \<le> n \<and> n \<le> 70 then Some (n - 55)
      else None)"

fun toHex :: "string \<Rightarrow> string" where
  "toHex [] = []"
| "toHex (b # bs) =
     hexDigit ((of_char b :: nat) div 16) # hexDigit ((of_char b :: nat) mod 16) # toHex bs"

fun fromHex :: "string \<Rightarrow> string" where
  "fromHex (a # b # rest) =
     (case unhex a of
        None \<Rightarrow> []
      | Some x \<Rightarrow>
          (case unhex b of
             None \<Rightarrow> []
           | Some y \<Rightarrow> char_of (16 * x + y) # fromHex rest))"
| "fromHex _ = []"

text \<open>
  \<open>s.split('|')\<close>: the segments between the pipes, in order; a string with \<open>n\<close>
  pipes has \<open>n + 1\<close> segments and the empty string has the one segment \<open>''''\<close>.
  The result is never empty, so the last branch of the \<open>case\<close> is never taken.
\<close>

fun split_pipe :: "string \<Rightarrow> string list" where
  "split_pipe [] = [[]]"
| "split_pipe (c # cs) =
     (if c = CHR ''|'' then [] # split_pipe cs
      else (case split_pipe cs of
              s # ss \<Rightarrow> (c # s) # ss
            | [] \<Rightarrow> [[c]]))"

section \<open>The runtime outside the repository\<close>

text \<open>
  Node's \<open>crypto\<close> module and \<open>JSON.stringify\<close> are not code of the repository. The
  libraries are taken to be present and to work as the code presumes:
  \<open>crypto.createCipher\<close> and \<open>crypto.createDecipher\<close> exist, the model loader either
  gives a model or rejects, \<open>ipfs.add\<close> either gives a cid or rejects.

  The mathematics of AES-256-GCM and of the key derivation are parameters of the model:
  \<^item> \<open>bytesToKey rt password\<close> is the key and the IV that \<open>createCipher\<close> and
    \<open>createDecipher\<close> derive from the password (OpenSSL's \<open>EVP_BytesToKey\<close>, without
    salt);
  \<^item> \<open>gcm_encrypt rt k iv data\<close> is the ciphertext of \<open>data\<close> under key \<open>k\<close> and
    IV \<open>iv\<close>, \<open>gcm_decrypt rt k iv c\<close> the decryption of \<open>c\<close>, and
    \<open>gcm_tag rt k iv c\<close> the authentication tag of the ciphertext \<open>c\<close>;
  \<^item> \<open>stringify rt v\<close> is \<open>JSON.stringify(v)\<close>.

  What the cipher and decipher objects do with them is written out below.
\<close>

datatype json = JNum real | JStr string | JObj "(string \<times> json) list"

record runtime =
  bytesToKey :: "string \<Rightarrow> string \<times> string"
  gcm_encrypt :: "string \<Rightarrow> string \<Rightarrow> string \<Rightarrow> string"
  gcm_decrypt :: "string \<Rightarrow> string \<Rightarrow> string \<Rightarrow> string"
  gcm_tag :: "string \<Rightarrow> string \<Rightarrow> string \<Rightarrow> string"
  stringify :: "json \<Rightarrow> jsstring"

text \<open>
  What holds of AES-GCM: decryption undoes encryption under the same key and IV, the
  ciphertext is as long as the plaintext, and the tag has 16 bytes.
\<close>

definition gcm_correct :: "runtime \<Rightarrow> bool" where
  "gcm_correct rt =
     ((\<forall>k iv d. gcm_decrypt rt k iv (gcm_encrypt rt k iv d) = d) \<and>
      (\<forall>k iv d. length (gcm_encrypt rt k iv d) = length d) \<and>
      (\<forall>k iv c. length (gcm_tag rt k iv c) = 16))"

text \<open>
  \<open>crypto.createCipher('aes-256-gcm', password)\<close> with \<open>update\<close>, \<open>final\<close> and
  \<open>getAuthTag\<close>: the ciphertext and the tag of the plaintext bytes. The call takes no
  IV: key and IV are the ones derived from the password.
\<close>

definition createCipher :: "runtime \<Rightarrow> string \<Rightarrow> string \<Rightarrow> string \<times> string" where
  "createCipher rt password data =
     (case bytesToKey rt password of
        (k, iv) \<Rightarrow> (gcm_encrypt rt k iv data, gcm_tag rt k iv (gcm_encrypt rt k iv data)))"

text \<open>
  \<open>crypto.createDecipher('aes-256-gcm', password)\<close>, made without an
  \<open>authTagLength\<close>: \<open>setAuthTag\<close> throws unless the tag has 4, 8 or 12 to 16 bytes
  (\<open>valid_tag_length\<close>); \<open>final\<close> compares the tag it was given with as many leading
  bytes of the tag of the ciphertext (\<open>tag_accepted\<close>) and throws when they differ;
  \<open>decipher_plain\<close> are the plaintext bytes that \<open>update\<close> and \<open>final\<close> give.
\<close>

definition valid_tag_length :: "nat \<Rightarrow> bool" where
  "valid_tag_length n = (n = 4 \<or> n = 8 \<or> (12 \<le> n \<and> n \<le> 16))"

definition tag_accepted :: "runtime \<Rightarrow> string \<Rightarrow> string \<Rightarrow> string \<Rightarrow> bool" where
  "tag_accepted rt password tag c =
     (case bytesToKey rt password of (k, iv) \<Rightarrow> tag = take (length tag) (gcm_tag rt k iv c))"

definition decipher_plain :: "runtime \<Rightarrow> string \<Rightarrow> string \<Rightarrow> string" where
  "decipher_plain rt password c =
     (case bytesToKey rt password of (k, iv) \<Rightarrow> gcm_decrypt rt k iv c)"

text \<open>
  A small runtime on which the definitions can be evaluated. Key and IV are the password
  and the password reversed; encryption adds the sum of the bytes of key and IV to every
  byte; the tag is 16 consecutive bytes starting at the sum of the bytes of key, IV and
  ciphertext. A string value is stringified between quotes, a number as \<open>0\<close>, an object
  as \<open>{}\<close>.
\<close>

definition toy_shift :: "string \<Rightarrow> string \<Rightarrow> nat" where
  "toy_shift k iv = sum_list (map of_char (k @ iv)) mod 256"

definition toy_gcm_encrypt :: "string \<Rightarrow> string \<Rightarrow> string \<Rightarrow> string" where
  "toy_gcm_encrypt k iv d = map (\<lambda>c. char_of ((of_char c :: nat) + toy_shift k iv)) d"

definition toy_gcm_decrypt :: "string \<Rightarrow> string \<Rightarrow> string \<Rightarrow> string" where
  "toy_gcm_decrypt k iv c = map (\<lambda>c. char_of ((of_char c :: nat) + (256 - toy_shift k iv))) c"

definition toy_gcm_tag :: "string \<Rightarrow> string \<Rightarrow> string \<Rightarrow> string" where
  "toy_gcm_tag k iv c =
     map (\<lambda>i. char_of (sum_list (map of_char (k @ iv @ c)) + i))
       [0, 1, 2, 3, 4, 5, 6, 7, 8, 9, 10, 11, 12, 13, 14, 15 :: nat]"

fun toy_stringify :: "json \<Rightarrow> jsstring" where
  "toy_stringify (JStr s) = 34 # map of_char s @ [34]"
| "toy_stringify (JNum x) = [48]"
| "toy_stringify (JObj members) = [123, 125]"

definition toy_runtime :: runtime where
  "toy_runtime =
     \<lparr> bytesToKey = (\<lambda>password. (password, rev password)),
       gcm_encrypt = toy_gcm_encrypt, gcm_decrypt = toy_gcm_decrypt, gcm_tag = toy_gcm_tag,
       stringify = toy_stringify \<rparr>"

section \<open>Errors\<close>

text \<open>
  The code defines no error classes; what it throws comes from the runtime.
  \<open>TypeError_InvalidArg\<close> is \<open>Buffer.from(undefined, 'hex')\<close>,
  \<open>TypeError_InvalidAuthTagLength\<close> is \<open>decipher.setAuthTag\<close> on a tag of a length
  that GCM does not allow,
  \<open>TypeError_InvalidEncoding\<close> is \<open>decipher.update(data, 'hex', ...)\<close> on a string of
  odd length,
  \<open>AuthenticationError\<close> is the Error of \<open>decipher.final\<close> when the tag does not match,
  \<open>TypeError_NullModel\<close> is the property read \<open>this.model.predict\<close> on \<open>null\<close>,
  \<open>IpfsError\<close> is a rejected \<open>ipfs.add\<close>.
\<close>

datatype error =
    TypeError_InvalidArg
  | TypeError_InvalidAuthTagLength
  | TypeError_InvalidEncoding
  | AuthenticationError
  | TypeError_NullModel
  | IpfsError

section \<open>\<open>quantumEncrypt\<close> and \<open>quantumDecrypt\<close> (nexus_core.js)\<close>

definition quantumEncrypt :: "runtime \<Rightarrow> string \<Rightarrow> jsstring \<Rightarrow> string" where
  "quantumEncrypt rt quantumKey data =
     (case createCipher rt quantumKey (utf8_encode data) of
        (encrypted, tag) \<Rightarrow> toHex encrypted @ ''|'' @ toHex tag)"

text \<open>
  \<open>const [data, tag] = encryptedData.split('|')\<close> takes the first two segments and
  ignores the rest; with one segment only, \<open>tag\<close> is \<open>undefined\<close> and
  \<open>Buffer.from(tag, 'hex')\<close> throws a TypeError. Then, in the order of the statements:
  \<open>setAuthTag\<close> checks the length of the tag, \<open>update\<close> refuses a hex string of odd
  length, \<open>final\<close> checks the tag, and the plaintext bytes are returned decoded as
  UTF-8.
\<close>

definition quantumDecrypt :: "runtime \<Rightarrow> string \<Rightarrow> string \<Rightarrow> error + jsstring" where
  "quantumDecrypt rt quantumKey encryptedData =
     (case split_pipe encryptedData of
        data # tag # _ \<Rightarrow>
          if \<not> valid_tag_length (length (fromHex tag)) then Inl TypeError_InvalidAuthTagLength
          else if odd (length data) then Inl TypeError_InvalidEncoding
          else if tag_accepted rt quantumKey (fromHex tag) (fromHex data)
          then Inr (utf8_decode (decipher_plain rt quantumKey (fromHex data)))
          else Inl AuthenticationError
      | _ \<Rightarrow> Inl TypeError_InvalidArg)"

section \<open>The hub: class \<open>GodHeadNexus\<close> (nexus_core.js)\<close>

text \<open>
  A loaded model is the function from the feature vector to
  \<open>model.predict(tf.tensor2d([marketData])).dataSync()[0]\<close>. JavaScript numbers are
  modelled as exact reals (the code rounds in doubles; values that are only written to
  the console, as in \<open>adjustPegging\<close>, are not reasoned about). An object with
  numeric properties (a sensor reading, the IoT cache) is an association list;
  \<open>set_prop\<close> is the assignment \<open>acc[k] = v\<close> for an ordinary key (not
  \<open>__proto__\<close>).
\<close>

type_synonym model = "real list \<Rightarrow> real"

type_synonym reading = "(string \<times> real) list"

fun set_prop :: "string \<Rightarrow> 'v \<Rightarrow> (string \<times> 'v) list \<Rightarrow> (string \<times> 'v) list" where
  "set_prop k v [] = [(k, v)]"
| "set_prop k v (p # ps) = (if fst p = k then (k, v) # ps else p # set_prop k v ps)"

text \<open>\<open>x || d\<close> on a numeric property: \<open>undefined\<close> and \<open>0\<close> are falsy.\<close>

definition num_or :: "real option \<Rightarrow> real \<Rightarrow> real" where
  "num_or x d = (case x of None \<Rightarrow> d | Some v \<Rightarrow> if v = 0 then d else v)"

datatype event =
    ModelLoaded
  | PredictionMade real "real list"
  | IotDataUpdated reading
  | TrainingTriggered string json
  | PeggingAdjusted real reading

datatype log = Info string | InfoNum string real | Err string

text \<open>
  The first four fields are the properties of the object (\<open>lastPrediction\<close> is read by
  \<open>getNexusStatus\<close>; \<open>None\<close> is \<open>undefined\<close>). The last four record what the
  object does to the outside: the events it emits, the console lines, the number of
  \<open>tf.loadLayersModel\<close> calls it has made, and the payloads it has passed to
  \<open>ipfs.add\<close>.
\<close>

record GodHeadNexus =
  quantumKey :: string
  model :: "model option"
  iotDataCache :: reading
  lastPrediction :: "real option"
  emitted :: "event list"
  console :: "log list"
  loadRequests :: nat
  ipfsAdded :: "string list"

definition say :: "log \<Rightarrow> GodHeadNexus \<Rightarrow> GodHeadNexus" where
  "say l nx = nx\<lparr>console := console nx @ [l]\<rparr>"

definition handleMarketAlert :: "real \<Rightarrow> GodHeadNexus \<Rightarrow> GodHeadNexus" where
  "handleMarketAlert adjustment nx =
     (if \<bar>adjustment\<bar> > 0.01
      then say (Info ''ALERT: Significant PI adjustment needed. Notify ecosystem.'') nx
      else nx)"

definition adjustPegging :: "reading \<Rightarrow> GodHeadNexus \<Rightarrow> GodHeadNexus" where
  "adjustPegging iotData nx =
     (let energyPrice = num_or (map_of iotData ''energy_price'') 0;
          adjustment = energyPrice * 0.0001
      in say (InfoNum ''Pegging adjusted by IoT: '' adjustment) nx)"

text \<open>
  \<open>this.emit(...)\<close> with the listeners of \<open>setupEventListeners\<close>, which run
  synchronously inside \<open>emit\<close>.
\<close>

definition emit :: "event \<Rightarrow> GodHeadNexus \<Rightarrow> GodHeadNexus" where
  "emit ev nx =
     (let nx1 = nx\<lparr>emitted := emitted nx @ [ev]\<rparr> in
      case ev of
        ModelLoaded \<Rightarrow> say (Info ''Nexus ready for predictions.'') nx1
      | PredictionMade adjustment marketData \<Rightarrow> handleMarketAlert adjustment nx1
      | IotDataUpdated iotData \<Rightarrow> adjustPegging iotData nx1
      | _ \<Rightarrow> nx1)"

text \<open>
  \<open>loadModel\<close> is asynchronous. Up to its \<open>await\<close> it calls
  \<open>tf.loadLayersModel(modelUrl)\<close> (\<open>loadModel_request\<close>); when that promise settles,
  with a model or with a rejection (\<open>None\<close>), the rest of the body runs
  (\<open>loadModel_settle\<close>): the rejection is caught and logged, and \<open>this.model\<close> stays
  as it was. \<open>loadModel\<close> is a call that is awaited to its end.
\<close>

definition loadModel_request :: "GodHeadNexus \<Rightarrow> GodHeadNexus" where
  "loadModel_request nx = nx\<lparr>loadRequests := loadRequests nx + 1\<rparr>"

definition loadModel_settle :: "model option \<Rightarrow> GodHeadNexus \<Rightarrow> GodHeadNexus" where
  "loadModel_settle loaded nx =
     (case loaded of
        Some m \<Rightarrow>
          emit ModelLoaded
            (say (Info ''GodHead Nexus AI model loaded from IPFS.'') (nx\<lparr>model := Some m\<rparr>))
      | None \<Rightarrow> say (Err ''Failed to load model:'') nx)"

definition loadModel :: "model option \<Rightarrow> GodHeadNexus \<Rightarrow> GodHeadNexus" where
  "loadModel loaded nx = loadModel_settle loaded (loadModel_request nx)"

text \<open>
  The constructor sets the fields and calls \<open>this.loadModel()\<close> without awaiting it: it
  returns with that load requested and not yet settled.
\<close>

definition new_GodHeadNexus :: "string \<Rightarrow> GodHeadNexus" where
  "new_GodHeadNexus key =
     loadModel_request
       \<lparr> quantumKey = key, model = None, iotDataCache = [], lastPrediction = None,
         emitted = [], console = [], loadRequests = 0, ipfsAdded = [] \<rparr>"

text \<open>
  \<open>predictAdjustment\<close>: the statements after \<open>if (!this.model) await this.loadModel()\<close>
  are \<open>predictAdjustment_body\<close>; reading \<open>this.model.predict\<close> when \<open>this.model\<close> is
  \<open>null\<close> throws a TypeError. \<open>predictAdjustment_enter\<close> is the part of a call that
  runs before the call is suspended for the first time: with no model it requests a load
  and waits, with a model it runs to its end.
\<close>

definition predictAdjustment_body :: "real list \<Rightarrow> GodHeadNexus \<Rightarrow> (error + real) \<times> GodHeadNexus" where
  "predictAdjustment_body marketData nx =
     (case model nx of
        None \<Rightarrow> (Inl TypeError_NullModel, nx)
      | Some m \<Rightarrow>
          (let adjustment = m marketData in
           (Inr adjustment,
            emit (PredictionMade adjustment marketData)
              (say (InfoNum ''Nexus Prediction: Adjust PI by '' adjustment) nx))))"

definition predictAdjustment_enter :: "real list \<Rightarrow> GodHeadNexus \<Rightarrow> GodHeadNexus" where
  "predictAdjustment_enter marketData nx =
     (if model nx = None then loadModel_request nx
      else snd (predictAdjustment_body marketData nx))"

definition predictAdjustment ::
  "model option \<Rightarrow> real list \<Rightarrow> GodHeadNexus \<Rightarrow> (error + real) \<times> GodHeadNexus" where
  "predictAdjustment loaded marketData nx =
     (if model nx = None then predictAdjustment_body marketData (loadModel loaded nx)
      else predictAdjustment_body marketData nx)"

text \<open>
  \<open>fetchIoTSensors\<close>: \<open>axios_get id\<close> is the \<open>data.value\<close> of the response for
  \<open>id\<close>, or \<open>None\<close> when the request fails; \<open>Promise.all\<close> rejects when one of
  them does, and the \<open>catch\<close> logs and returns the empty object.
\<close>

definition fetchIoTSensors ::
  "(string \<Rightarrow> real option) \<Rightarrow> string list \<Rightarrow> GodHeadNexus \<Rightarrow> reading \<times> GodHeadNexus" where
  "fetchIoTSensors axios_get sensorIds nx =
     (case those (map axios_get sensorIds) of
        Some values \<Rightarrow>
          (let cache = foldl (\<lambda>acc (k, v). set_prop k v acc) [] (zip sensorIds values);
               nx1 = say (Info ''IoT data fetched:'') (nx\<lparr>iotDataCache := cache\<rparr>)
           in (cache, emit (IotDataUpdated cache) nx1))
      | None \<Rightarrow> ([], say (Err ''IoT fetch failed:'') nx))"

text \<open>
  \<open>triggerFederatedTraining\<close>: \<open>stored\<close> is what \<open>this.ipfs.add(encryptedData)\<close>
  settles to, the cid or a rejection (\<open>None\<close>). There is no \<open>try\<close> around the call:
  a rejection leaves the function at the \<open>await\<close>.
\<close>

definition triggerFederatedTraining ::
  "runtime \<Rightarrow> string option \<Rightarrow> json \<Rightarrow> GodHeadNexus \<Rightarrow> (error + string) \<times> GodHeadNexus" where
  "triggerFederatedTraining rt stored contributionData nx =
     (let encryptedData = quantumEncrypt rt (quantumKey nx) (stringify rt contributionData);
          nx1 = nx\<lparr>ipfsAdded := ipfsAdded nx @ [encryptedData]\<rparr>
      in case stored of
           None \<Rightarrow> (Inl IpfsError, nx1)
         | Some cid \<Rightarrow>
             (Inr cid,
              emit (TrainingTriggered cid contributionData)
                (say (Info ''Federated training data stored on IPFS: '') nx1)))"

definition queryContractOracle ::
  "model option \<Rightarrow> GodHeadNexus \<Rightarrow> (error + real) \<times> GodHeadNexus" where
  "queryContractOracle loaded nx =
     (case predictAdjustment loaded [314159, 1000] nx of
        (Inl e, nx1) \<Rightarrow> (Inl e, nx1)
      | (Inr adjustment, nx1) \<Rightarrow>
          (Inr adjustment, say (InfoNum ''Oracle query result: '' adjustment) nx1))"

text \<open>
  \<open>getNexusStatus\<close>; in \<open>this.lastPrediction || null\<close> both \<open>undefined\<close> and \<open>0\<close>
  give \<open>null\<close> (\<open>None\<close>).
\<close>

record status =
  status_modelLoaded :: bool
  status_iotCache :: reading
  status_lastPrediction :: "real option"

definition getNexusStatus :: "GodHeadNexus \<Rightarrow> status" where
  "getNexusStatus nx =
     \<lparr> status_modelLoaded = (model nx \<noteq> None),
       status_iotCache = iotDataCache nx,
       status_lastPrediction =
         (case lastPrediction nx of
            None \<Rightarrow> None
          | Some v \<Rightarrow> if v = 0 then None else Some v) \<rparr>"

text \<open>
  A sequence of operations on the hub. Each operation carries what the service it awaits
  answers. \<open>OpLoadSettles\<close> is the settling of a load that was requested earlier and
  not awaited (the constructor's).
\<close>

datatype hub_op =
    OpLoadSettles "model option"
  | OpLoadModel "model option"
  | OpPredictAdjustment "model option" "real list"
  | OpFetchIoTSensors "string \<Rightarrow> real option" "string list"
  | OpTriggerFederatedTraining "string option" json
  | OpQueryContractOracle "model option"

fun run_op :: "runtime \<Rightarrow> GodHeadNexus \<Rightarrow> hub_op \<Rightarrow> GodHeadNexus" where
  "run_op rt nx (OpLoadSettles loaded) = loadModel_settle loaded nx"
| "run_op rt nx (OpLoadModel loaded) = loadModel loaded nx"
| "run_op rt nx (OpPredictAdjustment loaded marketData) = snd (predictAdjustment loaded marketData nx)"
| "run_op rt nx (OpFetchIoTSensors axios_get sensorIds) = snd (fetchIoTSensors axios_get sensorIds nx)"
| "run_op rt nx (OpTriggerFederatedTraining stored contributionData) =
     snd (triggerFederatedTraining rt stored contributionData nx)"
| "run_op rt nx (OpQueryContractOracle loaded) = snd (queryContractOracle loaded nx)"

definition run_ops :: "runtime \<Rightarrow> hub_op list \<Rightarrow> GodHeadNexus \<Rightarrow> GodHeadNexus" where
  "run_ops rt ops nx = foldl (run_op rt) nx ops"

section \<open>The sensor side: class \<open>IoTIntegration\<close> (iot_integration.js)\<close>

record cache_entry =
  raw :: reading
  encrypted :: string
  timestamp :: real

record IoTIntegration =
  nexus :: GodHeadNexus
  iot_quantumKey :: string
  sensorData :: "(string \<times> cache_entry) list"

text \<open>
  What the outside answers during one \<open>processSensorData\<close> call: the model loader (if
  the call comes to ask it), \<open>ipfs.add\<close> (likewise), and the two \<open>Date.now()\<close>.
\<close>

record answers =
  loaded :: "model option"
  stored :: "string option"
  now_cache :: real
  now_feature :: real

definition reading_json :: "reading \<Rightarrow> json" where
  "reading_json data = JObj (map (\<lambda>(k, v). (k, JNum v)) data)"

text \<open>
  \<open>adjustPiPegging\<close>. The code computes \<open>newPeg\<close> in doubles; the exact value of
  the model is the value of the code when the adjustment is a whole number of magnitude at
  most \<open>5000000000\<close> (the product and the sum are then whole numbers below \<open>2^53\<close>),
  and what is proved about the announced peg is stated for such adjustments.
\<close>

definition adjustPiPegging :: "real \<Rightarrow> reading \<Rightarrow> IoTIntegration \<Rightarrow> IoTIntegration" where
  "adjustPiPegging adjustment iotData iot =
     (let basePeg = 3141590000000;
          newPeg = basePeg + adjustment * 1000000
      in iot\<lparr>nexus :=
           emit (PeggingAdjusted newPeg iotData)
             (say (InfoNum ''New dynamic PI peg: '' newPeg) (nexus iot))\<rparr>)"

text \<open>\<open>data.energyPrice > 50\<close>: the comparison is false when the property is missing.\<close>

definition exceeds :: "real option \<Rightarrow> real \<Rightarrow> bool" where
  "exceeds x threshold = (case x of None \<Rightarrow> False | Some v \<Rightarrow> v > threshold)"

text \<open>
  \<open>processSensorData\<close>. The class has a \<open>quantumEncrypt\<close> of its own with the body of
  the hub's, on its own key. An error of an awaited call leaves the function there.
\<close>

definition processSensorData ::
  "runtime \<Rightarrow> answers \<Rightarrow> string \<Rightarrow> reading \<Rightarrow> IoTIntegration \<Rightarrow> (error + unit) \<times> IoTIntegration" where
  "processSensorData rt ans topic data iot =
     (let encryptedData = quantumEncrypt rt (iot_quantumKey iot) (stringify rt (reading_json data));
          iot1 = iot\<lparr>sensorData :=
                   set_prop topic
                     \<lparr> raw = data, encrypted = encryptedData, timestamp = now_cache ans \<rparr>
                     (sensorData iot)\<rparr>;
          features =
            [num_or (map_of data ''price'') 314159,
             num_or (map_of data ''volume'') 1000,
             num_or (map_of data ''timestamp'') (now_feature ans),
             num_or (map_of data ''energyPrice'') 0,
             num_or (map_of data ''commodityIndex'') 0]
      in case predictAdjustment (loaded ans) features (nexus iot1) of
           (Inl e, nx1) \<Rightarrow> (Inl e, iot1\<lparr>nexus := nx1\<rparr>)
         | (Inr adjustment, nx1) \<Rightarrow>
             (let iot2 = adjustPiPegging adjustment data (iot1\<lparr>nexus := nx1\<rparr>);
                  done = InfoNum ''IoT data processed. PI pegging adjusted by '' adjustment
              in if exceeds (map_of data ''energyPrice'') 50
                 then (case triggerFederatedTraining rt (stored ans)
                              (JObj [(''sensorData'', reading_json data)]) (nexus iot2) of
                         (Inl e, nx3) \<Rightarrow> (Inl e, iot2\<lparr>nexus := nx3\<rparr>)
                       | (Inr _, nx3) \<Rightarrow> (Inr (), iot2\<lparr>nexus := say done nx3\<rparr>))
                 else (Inr (), iot2\<lparr>nexus := say done (nexus iot2)\<rparr>)))"

text \<open>A sequence of \<open>adjustPiPegging\<close> calls, and the peg values the hub has announced.\<close>

definition adjust_all :: "(real \<times> reading) list \<Rightarrow> IoTIntegration \<Rightarrow> IoTIntegration" where
  "adjust_all calls iot = foldl (\<lambda>s (adjustment, iotData). adjustPiPegging adjustment iotData s) iot calls"

fun pegs :: "event list \<Rightarrow> real list" where
  "pegs [] = []"
| "pegs (PeggingAdjusted newPeg iotData # evs) = newPeg # pegs evs"
| "pegs (_ # evs) = pegs evs"

fun trainings :: "event list \<Rightarrow> (string \<times> json) list" where
  "trainings [] = []"
| "trainings (TrainingTriggered cid contributionData # evs) = (cid, contributionData) # trainings evs"
| "trainings (_ # evs) = trainings evs"

text \<open>
  Calls of \<open>predictAdjustment\<close> made one after the other with none of them awaited:
  each runs up to its first suspension before the next one starts, and no promise
  settles in between.
\<close>

definition enter_all :: "real list list \<Rightarrow> GodHeadNexus \<Rightarrow> GodHeadNexus" where
  "enter_all calls nx = foldl (\<lambda>s marketData. predictAdjustment_enter marketData s) nx calls"

text \<open>The constructor of \<open>IoTIntegration\<close>: the fields the model keeps.\<close>

definition new_IoTIntegration :: "GodHeadNexus \<Rightarrow> string \<Rightarrow> IoTIntegration" where
  "new_IoTIntegration nx key = \<lparr> nexus = nx, iot_quantumKey = key, sensorData = [] \<rparr>"

text \<open>
  What a call leaves visible of the hub for the training side channel: the key, the
  payloads handed to \<open>ipfs.add\<close>, and the training events emitted.
\<close>

definition observed :: "GodHeadNexus \<Rightarrow> string \<times> string list \<times> (string \<times> json) list" where
  "observed nx = (quantumKey nx, ipfsAdded nx, trainings (emitted nx))"

text \<open>
  A hub whose model is loaded (it answers \<open>0.001\<close>, as the mock of the test suite
  does), with a sensor side attached, and the answers of the outside for one reading.
\<close>

definition example_model :: model where
  "example_model features = 1 / 1000"

definition example_iot :: IoTIntegration where
  "example_iot =
     new_IoTIntegration
       (loadModel_settle (Some example_model) (new_GodHeadNexus ''quantum-key''))
       ''quantum-secret''"

definition example_answers :: "string option \<Rightarrow> answers" where
  "example_answers st =
     \<lparr> loaded = None, stored = st, now_cache = 1700000000000, now_feature = 1700000000000 \<rparr>"

section \<open>Hex coding and splitting: basic facts\<close>

lemma nat_of_char_less: "(of_char c :: nat) < 256"
proof -
  have "(of_char c :: nat) mod 256 = of_char c" by (rule of_char_mod_256)
  then show ?thesis by (metis mod_less_divisor zero_less_numeral)
qed

lemma nat_of_char_div16: "(of_char c :: nat) div 16 < 16"
  using nat_of_char_less [of c] by (simp add: less_mult_imp_div_less)

lemma unhex_hexDigit: "n < 16 \<Longrightarrow> unhex (hexDigit n) = Some n"
  by (auto simp: unhex_def hexDigit_def Let_def)

lemma hexDigit_not_pipe: "n < 16 \<Longrightarrow> hexDigit n \<noteq> CHR ''|''"
proof
  assume n: "n < 16" and "hexDigit n = CHR ''|''"
  then have "unhex (hexDigit n) = unhex (CHR ''|'')" by simp
  with n show False by (simp add: unhex_hexDigit) (simp add: unhex_def)
qed

lemma fromHex_toHex_append: "fromHex (toHex bs @ rest) = bs @ fromHex rest"
  by (induction bs) (simp_all add: unhex_hexDigit nat_of_char_div16)

lemma fromHex_toHex: "fromHex (toHex bs) = bs"
  using fromHex_toHex_append [of bs "[]"] by simp

lemma toHex_no_pipe: "CHR ''|'' \<notin> set (toHex bs)"
  by (induction bs) (simp_all add: hexDigit_not_pipe [THEN not_sym] nat_of_char_div16)

lemma split_pipe_no_pipe: "CHR ''|'' \<notin> set s \<Longrightarrow> split_pipe s = [s]"
  by (induction s) auto

lemma split_pipe_append:
  "CHR ''|'' \<notin> set a \<Longrightarrow> split_pipe (a @ CHR ''|'' # b) = a # split_pipe b"
  by (induction a) auto

lemma split_pipe_two:
  "CHR ''|'' \<notin> set a \<Longrightarrow> CHR ''|'' \<notin> set b \<Longrightarrow> split_pipe (a @ ''|'' @ b) = [a, b]"
  by (simp add: split_pipe_append split_pipe_no_pipe)

lemma split_pipe_more:
  "CHR ''|'' \<notin> set a \<Longrightarrow> CHR ''|'' \<notin> set b \<Longrightarrow>
   split_pipe (a @ ''|'' @ b @ ''|'' @ rest) = a # b # split_pipe rest"
  by (simp add: split_pipe_append)

lemma length_toHex: "length (toHex bs) = 2 * length bs"
  by (induction bs) simp_all

section \<open>UTF-8: a well-formed string is decoded as it was encoded\<close>

lemma utf8_step1: "cp < 0x80 \<Longrightarrow> utf8_step cp bs = ([cp], 0)"
  by (simp add: utf8_step_def)

lemma step2_abs:
  "2 \<le> q \<Longrightarrow> q < 32 \<Longrightarrow> c < 64 \<Longrightarrow>
   utf8_step (0xC0 + q) ((0x80 + c) # rest) = ([q * 64 + c], 1)"
  by (simp add: utf8_step_def continuation_def)

lemma step3_abs:
  "q < 16 \<Longrightarrow> c < 64 \<Longrightarrow> d < 64 \<Longrightarrow> (q = 0 \<longrightarrow> 32 \<le> c) \<Longrightarrow> (q = 13 \<longrightarrow> c < 32) \<Longrightarrow>
   utf8_step (0xE0 + q) ((0x80 + c) # (0x80 + d) # rest) = ([q * 4096 + c * 64 + d], 2)"
  by (simp add: utf8_step_def continuation_def second_byte_def) arith

lemma step4_abs:
  "q < 5 \<Longrightarrow> c < 64 \<Longrightarrow> d < 64 \<Longrightarrow> e < 64 \<Longrightarrow> (q = 0 \<longrightarrow> 16 \<le> c) \<Longrightarrow> (q = 4 \<longrightarrow> c < 16) \<Longrightarrow>
   utf8_step (0xF0 + q) ((0x80 + c) # (0x80 + d) # (0x80 + e) # rest)
     = (units_of_code_point (q * 262144 + c * 4096 + d * 64 + e), 3)"
  by (simp add: utf8_step_def continuation_def second_byte_def) arith

lemma split2: "(cp :: nat) div 64 * 64 + cp mod 64 = cp"
  by simp

lemma scale64: "(x :: nat) div 64 * (64 * k) + x mod 64 * k = x * k"
proof -
  have "x div 64 * (64 * k) + x mod 64 * k = (x div 64 * 64 + x mod 64) * k"
    by (simp only: distrib_right mult.assoc)
  then show ?thesis by simp
qed

lemma split3: "(cp :: nat) div 4096 * 4096 + cp div 64 mod 64 * 64 + cp mod 64 = cp"
proof -
  have "cp div 4096 = cp div 64 div 64" by (simp add: div_mult2_eq)
  then have "cp div 4096 * 4096 + cp div 64 mod 64 * 64 = cp div 64 * 64"
    using scale64 [of "cp div 64" 64] by simp
  then show ?thesis by simp
qed

lemma split4:
  "(cp :: nat) div 262144 * 262144 + cp div 4096 mod 64 * 4096 + cp div 64 mod 64 * 64 + cp mod 64 = cp"
proof -
  have "cp div 262144 = cp div 4096 div 64" by (simp add: div_mult2_eq)
  then have "cp div 262144 * 262144 + cp div 4096 mod 64 * 4096 = cp div 4096 * 4096"
    using scale64 [of "cp div 4096" 4096] by simp
  then show ?thesis using split3 [of cp] by simp
qed

lemma range3:
  assumes "0x800 \<le> (cp :: nat)" "cp < 0x10000" "\<not> high_surrogate cp" "\<not> low_surrogate cp"
  shows "cp div 4096 < 16"
    and "cp div 4096 = 0 \<longrightarrow> 32 \<le> cp div 64 mod 64"
    and "cp div 4096 = 13 \<longrightarrow> cp div 64 mod 64 < 32"
proof -
  show "cp div 4096 < 16" using assms(2) by simp
  show "cp div 4096 = 0 \<longrightarrow> 32 \<le> cp div 64 mod 64"
  proof
    assume "cp div 4096 = 0"
    then have "cp < 4096" by simp
    then have "cp div 64 < 64" by simp
    moreover have "32 \<le> cp div 64" using assms(1) by simp
    ultimately show "32 \<le> cp div 64 mod 64" by simp
  qed
  show "cp div 4096 = 13 \<longrightarrow> cp div 64 mod 64 < 32"
  proof
    assume q: "cp div 4096 = 13"
    from q have "cp div 4096 < 14" by simp
    then have "cp < 57344" by simp
    then have "cp < 0xD800"
      using assms(3,4) by (simp add: high_surrogate_def low_surrogate_def)
    then have u: "cp div 64 < 864" by simp
    have "cp div 64 div 64 = 13" using q by (simp add: div_mult2_eq)
    then have "cp div 64 = 13 * 64 + cp div 64 mod 64"
      using div_mult_mod_eq [of "cp div 64" 64] by simp
    with u show "cp div 64 mod 64 < 32" by simp
  qed
qed

lemma range4:
  assumes "0x10000 \<le> (cp :: nat)" "cp < 0x110000"
  shows "cp div 262144 < 5"
    and "cp div 262144 = 0 \<longrightarrow> 16 \<le> cp div 4096 mod 64"
    and "cp div 262144 = 4 \<longrightarrow> cp div 4096 mod 64 < 16"
proof -
  show "cp div 262144 < 5" using assms(2) by simp
  show "cp div 262144 = 0 \<longrightarrow> 16 \<le> cp div 4096 mod 64"
  proof
    assume "cp div 262144 = 0"
    then have "cp < 262144" by simp
    then have "cp div 4096 < 64" by simp
    moreover have "16 \<le> cp div 4096" using assms(1) by simp
    ultimately show "16 \<le> cp div 4096 mod 64" by simp
  qed
  show "cp div 262144 = 4 \<longrightarrow> cp div 4096 mod 64 < 16"
  proof
    assume q: "cp div 262144 = 4"
    have u: "cp div 4096 < 272" using assms(2) by simp
    have "cp div 4096 div 64 = 4" using q by (simp add: div_mult2_eq)
    then have "cp div 4096 = 4 * 64 + cp div 4096 mod 64"
      using div_mult_mod_eq [of "cp div 4096" 64] by simp
    with u show "cp div 4096 mod 64 < 16" by simp
  qed
qed


lemma utf8_units_code_point:
  assumes "cp < 0x110000" "\<not> high_surrogate cp" "\<not> low_surrogate cp"
  shows "utf8_units (utf8_of_code_point cp @ rest) = units_of_code_point cp @ utf8_units rest"
proof -
  consider "cp < 0x80" | "0x80 \<le> cp" "cp < 0x800" | "0x800 \<le> cp" "cp < 0x10000"
    | "0x10000 \<le> cp" by arith
  then show ?thesis
  proof cases
    case 1
    then show ?thesis
      by (simp add: utf8_of_code_point_def utf8_step1 units_of_code_point_def)
  next
    case 2
    then have "2 \<le> cp div 64" "cp div 64 < 32" by simp_all
    then have "utf8_step (0xC0 + cp div 64) ((0x80 + cp mod 64) # rest) = ([cp], 1)"
      using step2_abs [of "cp div 64" "cp mod 64" rest] by (simp add: split2)
    with 2 show ?thesis
      by (simp add: utf8_of_code_point_def units_of_code_point_def)
  next
    case 3
    have "utf8_step (0xE0 + cp div 4096) ((0x80 + cp div 64 mod 64) # (0x80 + cp mod 64) # rest)
        = ([cp], 2)"
      using step3_abs [of "cp div 4096" "cp div 64 mod 64" "cp mod 64" rest]
        range3 [OF 3 assms(2,3)] by (simp add: split3)
    with 3 show ?thesis
      by (simp add: utf8_of_code_point_def units_of_code_point_def)
  next
    case 4
    have "utf8_step (0xF0 + cp div 262144)
         ((0x80 + cp div 4096 mod 64) # (0x80 + cp div 64 mod 64) # (0x80 + cp mod 64) # rest)
        = (units_of_code_point cp, 3)"
      using step4_abs [of "cp div 262144" "cp div 4096 mod 64" "cp div 64 mod 64" "cp mod 64" rest]
        range4 [OF 4 assms(1)] by (simp add: split4)
    with 4 show ?thesis
      by (simp add: utf8_of_code_point_def)
  qed
qed

lemma pair_units:
  assumes "high_surrogate u" "low_surrogate v"
  shows "units_of_code_point (0x10000 + (u - 0xD800) * 1024 + (v - 0xDC00)) = [u, v]"
    and "0x10000 + (u - 0xD800) * 1024 + (v - 0xDC00) < 0x110000"
    and "\<not> high_surrogate (0x10000 + (u - 0xD800) * 1024 + (v - 0xDC00))"
    and "\<not> low_surrogate (0x10000 + (u - 0xD800) * 1024 + (v - 0xDC00))"
proof -
  from assms obtain a b where u: "u = 0xD800 + a" "a < 1024" and v: "v = 0xDC00 + b" "b < 1024"
    by (auto simp: high_surrogate_def low_surrogate_def intro: that [of "u - 0xD800" "v - 0xDC00"])
  show "units_of_code_point (0x10000 + (u - 0xD800) * 1024 + (v - 0xDC00)) = [u, v]"
    using u v by (simp add: units_of_code_point_def)
  show "0x10000 + (u - 0xD800) * 1024 + (v - 0xDC00) < 0x110000"
    using u v by simp
  show "\<not> high_surrogate (0x10000 + (u - 0xD800) * 1024 + (v - 0xDC00))"
    using u v by (simp add: high_surrogate_def)
  show "\<not> low_surrogate (0x10000 + (u - 0xD800) * 1024 + (v - 0xDC00))"
    using u v by (simp add: low_surrogate_def)
qed


lemma utf8_units_utf8_bytes: "well_formed s \<Longrightarrow> utf8_units (utf8_bytes s) = s"
proof (induction s rule: utf8_bytes.induct)
  case 1
  then show ?case by simp
next
  case (2 u)
  then show ?case
    using utf8_units_code_point [of u "[]"] by (simp add: units_of_code_point_def)
next
  case (3 u v rest)
  show ?case
  proof (cases "high_surrogate u")
    case True
    with 3 have lv: "low_surrogate v" and wf: "well_formed rest" by simp_all
    from True lv 3 wf have ih: "utf8_units (utf8_bytes rest) = rest" by simp
    show ?thesis
      using True lv ih pair_units [OF True lv]
      by (simp add: utf8_units_code_point)
  next
    case False
    with 3 have u: "u < 0x10000" "\<not> low_surrogate u" and wf: "well_formed (v # rest)" by simp_all
    from False 3 wf have ih: "utf8_units (utf8_bytes (v # rest)) = v # rest" by simp
    show ?thesis
      using False u ih utf8_units_code_point [of u "utf8_bytes (v # rest)"]
      by (simp add: units_of_code_point_def)
  qed
qed

lemma utf8_of_code_point_bytes:
  assumes "cp < 0x110000" "b \<in> set (utf8_of_code_point cp)"
  shows "b < 256"
proof -
  have "cp div 64 < 32" if "cp < 0x800" using that by simp
  moreover have "cp div 4096 < 16" if "cp < 0x10000" using that by simp
  moreover have "cp div 262144 < 5" using assms(1) by simp
  moreover have "cp mod 64 < 64" "cp div 64 mod 64 < 64" "cp div 4096 mod 64 < 64" by simp_all
  ultimately show ?thesis
    using assms(2) by (auto simp: utf8_of_code_point_def split: if_splits)
qed

lemma utf8_bytes_range: "well_formed s \<Longrightarrow> b \<in> set (utf8_bytes s) \<Longrightarrow> b < 256"
proof (induction s rule: utf8_bytes.induct)
  case 1
  then show ?case by simp
next
  case (2 u)
  then show ?case using utf8_of_code_point_bytes [of u b] by (simp split: if_splits)
next
  case (3 u v rest)
  show ?case
  proof (cases "high_surrogate u")
    case True
    with 3(3) have lv: "low_surrogate v" and wf: "well_formed rest" by simp_all
    from 3(4) True lv
    consider "b \<in> set (utf8_of_code_point (0x10000 + (u - 0xD800) * 1024 + (v - 0xDC00)))"
      | "b \<in> set (utf8_bytes rest)" by auto
    then show ?thesis
    proof cases
      case 1
      then show ?thesis using pair_units(2) [OF True lv] utf8_of_code_point_bytes by blast
    next
      case 2
      then show ?thesis using 3(1) True lv wf by simp
    qed
  next
    case False
    with 3(3) have u: "u < 0x10000" "\<not> low_surrogate u" and wf: "well_formed (v # rest)" by simp_all
    from 3(4) False u consider "b \<in> set (utf8_of_code_point u)" | "b \<in> set (utf8_bytes (v # rest))"
      by auto
    then show ?thesis
    proof cases
      case 1
      then show ?thesis using u(1) utf8_of_code_point_bytes [of u b] by simp
    next
      case 2
      then show ?thesis using 3(2) False wf by simp
    qed
  qed
qed

lemma of_char_char_of_list:
  "(\<And>b. b \<in> set bs \<Longrightarrow> b < 256) \<Longrightarrow> map (of_char :: char \<Rightarrow> nat) (map char_of bs) = bs"
  by (induction bs) simp_all

lemma utf8_decode_utf8_encode: "well_formed s \<Longrightarrow> utf8_decode (utf8_encode s) = s"
  using of_char_char_of_list [of "utf8_bytes s"] utf8_bytes_range [of s]
  by (simp add: utf8_decode_def utf8_encode_def utf8_units_utf8_bytes)

section \<open>The cipher and the decipher\<close>

lemma tag_accepted_cipher:
  "tag_accepted rt key t (fst (createCipher rt key d))
     = (t = take (length t) (snd (createCipher rt key d)))"
  by (simp add: tag_accepted_def createCipher_def split: prod.splits)

lemma decipher_plain_cipher:
  "gcm_correct rt \<Longrightarrow> decipher_plain rt key (fst (createCipher rt key d)) = d"
  by (simp add: gcm_correct_def decipher_plain_def createCipher_def split: prod.splits)

lemma cipher_lengths:
  "gcm_correct rt \<Longrightarrow>
   length (fst (createCipher rt key d)) = length d \<and> length (snd (createCipher rt key d)) = 16"
  by (simp add: gcm_correct_def createCipher_def split: prod.splits)

lemma quantumEncrypt_blob:
  "quantumEncrypt rt key data =
     toHex (fst (createCipher rt key (utf8_encode data))) @ ''|'' @
     toHex (snd (createCipher rt key (utf8_encode data)))"
  by (simp add: quantumEncrypt_def split: prod.splits)

lemma quantumDecrypt_segments:
  "CHR ''|'' \<notin> set a \<Longrightarrow> CHR ''|'' \<notin> set b \<Longrightarrow>
   quantumDecrypt rt key (a @ ''|'' @ b) =
     (if \<not> valid_tag_length (length (fromHex b)) then Inl TypeError_InvalidAuthTagLength
      else if odd (length a) then Inl TypeError_InvalidEncoding
      else if tag_accepted rt key (fromHex b) (fromHex a)
      then Inr (utf8_decode (decipher_plain rt key (fromHex a)))
      else Inl AuthenticationError)"
  by (simp add: quantumDecrypt_def split_pipe_two del: append.simps)

lemma quantumDecrypt_extra_segments:
  assumes "CHR ''|'' \<notin> set a" and "CHR ''|'' \<notin> set b"
  shows "quantumDecrypt rt key (a @ ''|'' @ b @ ''|'' @ rest) = quantumDecrypt rt key (a @ ''|'' @ b)"
proof -
  have "split_pipe (a @ ''|'' @ b @ ''|'' @ rest) = a # b # split_pipe rest"
    and "split_pipe (a @ ''|'' @ b) = [a, b]"
    using assms by (simp_all add: split_pipe_more split_pipe_two del: append.simps)
  then show ?thesis
    by (simp add: quantumDecrypt_def del: append.simps)
qed

lemma quantumDecrypt_prefix_tag:
  assumes "gcm_correct rt" and "valid_tag_length n"
  shows "quantumDecrypt rt key
           (toHex (fst (createCipher rt key (utf8_encode data))) @ ''|'' @
            toHex (take n (snd (createCipher rt key (utf8_encode data)))))
         = Inr (utf8_decode (utf8_encode data))"
proof -
  let ?c = "fst (createCipher rt key (utf8_encode data))"
  let ?t = "snd (createCipher rt key (utf8_encode data))"
  have len: "length ?t = 16" using assms(1) cipher_lengths by blast
  have "n \<le> 16" using assms(2) by (auto simp: valid_tag_length_def)
  with len have n: "length (take n ?t) = n" by simp
  have acc: "tag_accepted rt key (take n ?t) ?c"
    using len \<open>n \<le> 16\<close> by (simp add: tag_accepted_cipher min_absorb2)
  show ?thesis
    using assms n acc
    by (simp add: quantumDecrypt_segments toHex_no_pipe fromHex_toHex length_toHex
        decipher_plain_cipher del: append.simps)
qed

lemma quantumDecrypt_quantumEncrypt_utf8:
  assumes "gcm_correct rt"
  shows "quantumDecrypt rt key (quantumEncrypt rt key data) = Inr (utf8_decode (utf8_encode data))"
proof -
  have "length (snd (createCipher rt key (utf8_encode data))) = 16"
    using assms cipher_lengths by blast
  then have "take 16 (snd (createCipher rt key (utf8_encode data)))
      = snd (createCipher rt key (utf8_encode data))"
    by simp
  moreover have "valid_tag_length 16" by (simp add: valid_tag_length_def)
  ultimately show ?thesis
    using quantumDecrypt_prefix_tag [OF assms, of 16 key data]
    by (simp add: quantumEncrypt_blob del: append.simps)
qed

lemma quantumDecrypt_trailing_segment:
  assumes "gcm_correct rt"
  shows "quantumDecrypt rt key (quantumEncrypt rt key data @ ''|'' @ rest)
     = Inr (utf8_decode (utf8_encode data))"
proof -
  have "quantumDecrypt rt key (quantumEncrypt rt key data @ ''|'' @ rest)
      = quantumDecrypt rt key (quantumEncrypt rt key data)"
    using quantumDecrypt_extra_segments
      [of "toHex (fst (createCipher rt key (utf8_encode data)))"
          "toHex (snd (createCipher rt key (utf8_encode data)))" rt key rest]
    by (simp add: quantumEncrypt_blob toHex_no_pipe del: append.simps)
  then show ?thesis
    using quantumDecrypt_quantumEncrypt_utf8 [OF assms] by simp
qed

subsection \<open>The small runtime\<close>

lemma toy_char: "char_of ((of_char c :: nat) + s mod 256 + (256 - s mod 256)) = c"
proof -
  have "(of_char c :: nat) + s mod 256 + (256 - s mod 256) = of_char c + 256" by simp
  then have "char_of ((of_char c :: nat) + s mod 256 + (256 - s mod 256))
      = char_of ((of_char c :: nat) + 256)"
    by simp
  also have "\<dots> = char_of ((of_char c + 256) mod 256 :: nat)" by (simp only: char_of_mod_256)
  also have "\<dots> = c" by simp
  finally show ?thesis .
qed

lemma char_of_mod_add: "(char_of ((a :: nat) mod 256 + b) :: char) = char_of (a + b)"
proof -
  have "(char_of (a mod 256 + b) :: char) = char_of ((a mod 256 + b) mod 256)"
    by (simp only: char_of_mod_256)
  also have "(a mod 256 + b) mod 256 = (a + b) mod 256" by (simp add: mod_add_left_eq)
  also have "(char_of ((a + b) mod 256) :: char) = char_of (a + b)" by (simp only: char_of_mod_256)
  finally show ?thesis .
qed

lemma toy_gcm_decrypt_encrypt: "toy_gcm_decrypt k iv (toy_gcm_encrypt k iv d) = d"
proof -
  have "(char_of (of_char (char_of ((of_char c :: nat) + toy_shift k iv) :: char)
           + (256 - toy_shift k iv) :: nat) :: char) = c"
    for c :: char
  proof -
    let ?s = "sum_list (map of_char (k @ iv)) :: nat"
    have "(char_of (of_char (char_of ((of_char c :: nat) + ?s mod 256) :: char)
             + (256 - ?s mod 256) :: nat) :: char)
        = char_of (((of_char c :: nat) + ?s mod 256) mod 256 + (256 - ?s mod 256))"
      by (simp only: of_char_of)
    also have "\<dots> = char_of ((of_char c :: nat) + ?s mod 256 + (256 - ?s mod 256))"
      by (rule char_of_mod_add)
    also have "\<dots> = c" by (rule toy_char)
    finally show ?thesis by (simp only: toy_shift_def)
  qed
  then show ?thesis
    by (simp add: toy_gcm_decrypt_def toy_gcm_encrypt_def comp_def del: of_char_mod_256 of_char_of)
qed

lemma toy_gcm_correct: "gcm_correct toy_runtime"
  by (simp add: gcm_correct_def toy_runtime_def toy_gcm_decrypt_encrypt)
     (simp add: toy_gcm_encrypt_def toy_gcm_tag_def)

lemma toy_hi:
  "toHex (fst (createCipher toy_runtime ''k'' (utf8_encode [104, 105]))) = ''3e3f''"
  "toHex (snd (createCipher toy_runtime ''k'' (utf8_encode [104, 105])))
     = ''535455565758595a5b5c5d5e5f606162''"
  "toHex (take 4 (snd (createCipher toy_runtime ''k'' (utf8_encode [104, 105])))) = ''53545556''"
  by (simp_all add: createCipher_def toy_runtime_def toy_gcm_encrypt_def toy_gcm_tag_def
      toy_shift_def utf8_encode_def utf8_of_code_point_def high_surrogate_def low_surrogate_def
      hexDigit_def char_of_eq_iff)

lemma well_formed_hi: "well_formed [104, 105]"
  by (simp add: high_surrogate_def low_surrogate_def)

section \<open>The encrypt/decrypt pair\<close>

text \<open>
  C2, as stated, fails: the plaintext that consists of the single high surrogate
  \<open>0xD800\<close> is encoded as U+FFFD, and decrypting its blob under the same key returns
  the string U+FFFD, not the plaintext.
\<close>

theorem quantumDecrypt_lone_surrogate:
  "quantumDecrypt toy_runtime ''quantum-key'' (quantumEncrypt toy_runtime ''quantum-key'' [0xD800])
     = Inr [0xFFFD]"
proof -
  have "utf8_decode (utf8_encode [0xD800]) = [0xFFFD]"
    by (simp add: utf8_decode_def utf8_encode_def high_surrogate_def utf8_step_def
        second_byte_def continuation_def)
  then show ?thesis
    using quantumDecrypt_quantumEncrypt_utf8 [OF toy_gcm_correct] by simp
qed

text \<open>
  C2, amended. For every well-formed plaintext string (every surrogate in a pair) and every
  key, \<open>quantumDecrypt\<close> under the same key returns exactly the plaintext that
  \<open>quantumEncrypt\<close> was given: the UTF-8 coding, the hex coding and the pipe-separated
  framing lose nothing, and the decipher accepts the tag the cipher produced.
\<close>

theorem quantumDecrypt_quantumEncrypt:
  assumes "gcm_correct rt" and "well_formed data"
  shows "quantumDecrypt rt key (quantumEncrypt rt key data) = Inr data"
  using quantumDecrypt_quantumEncrypt_utf8 [OF assms(1)] utf8_decode_utf8_encode [OF assms(2)]
  by simp

theorem quantumDecrypt_quantumEncrypt_witness:
  "gcm_correct toy_runtime \<and> well_formed [104, 0xE9, 0x20AC, 0xD83D, 0xDE00] \<and>
   quantumDecrypt toy_runtime ''quantum-key''
     (quantumEncrypt toy_runtime ''quantum-key'' [104, 0xE9, 0x20AC, 0xD83D, 0xDE00])
     = Inr [104, 0xE9, 0x20AC, 0xD83D, 0xDE00]"
proof -
  have wf: "well_formed [104, 0xE9, 0x20AC, 0xD83D, 0xDE00]"
    by (simp add: high_surrogate_def low_surrogate_def)
  show ?thesis
    using quantumDecrypt_quantumEncrypt [OF toy_gcm_correct wf, of "''quantum-key''"]
      toy_gcm_correct wf
    by simp
qed

text \<open>
  C3, as stated, fails: take the blob that \<open>quantumEncrypt\<close> gives for the plaintext
  \<open>hi\<close> and cut its last 24 characters off, which leaves the first eight hex digits
  (four bytes) of the tag in the tag segment. The tampered blob is accepted and the
  plaintext is returned.
\<close>

theorem quantumDecrypt_truncated_tag_accepted:
  "quantumDecrypt toy_runtime ''k''
     (take (length (quantumEncrypt toy_runtime ''k'' [104, 105]) - 24)
        (quantumEncrypt toy_runtime ''k'' [104, 105]))
   = Inr [104, 105]"
proof -
  have v: "valid_tag_length 4" by (simp add: valid_tag_length_def)
  have b: "quantumEncrypt toy_runtime ''k'' [104, 105] = ''3e3f|535455565758595a5b5c5d5e5f606162''"
    by (simp add: quantumEncrypt_blob toy_hi)
  have "quantumDecrypt toy_runtime ''k'' ''3e3f|53545556'' = Inr [104, 105]"
    using quantumDecrypt_prefix_tag [OF toy_gcm_correct v, of "''k''" "[104, 105]"]
      utf8_decode_utf8_encode [OF well_formed_hi]
    by (simp add: toy_hi)
  then show ?thesis by (simp add: b)
qed

text \<open>
  C3, amended. Take a blob that \<open>quantumEncrypt\<close> produced and replace its tag segment
  by any pipe-free string. Unless that string hex-decodes to the tag or to its first 4, 8,
  12, 13, 14 or 15 bytes, \<open>quantumDecrypt\<close> fails and returns no plaintext: with the
  TypeError of \<open>setAuthTag\<close> when the decoded tag has another length, with the
  authentication error of \<open>decipher.final\<close> otherwise. When the string is the hex of the
  first 4, 8, 12, 13, 14 or 15 bytes of the tag, the plaintext (a well-formed string) is
  returned.
\<close>

theorem quantumDecrypt_tag_check:
  "(CHR ''|'' \<notin> set seg \<and>
    \<not> (valid_tag_length (length (fromHex seg)) \<and>
       fromHex seg = take (length (fromHex seg)) (snd (createCipher rt key (utf8_encode data)))) \<longrightarrow>
      quantumDecrypt rt key (toHex (fst (createCipher rt key (utf8_encode data))) @ ''|'' @ seg)
        = Inl (if valid_tag_length (length (fromHex seg)) then AuthenticationError
               else TypeError_InvalidAuthTagLength)) \<and>
   (gcm_correct rt \<and> well_formed data \<and> valid_tag_length n \<longrightarrow>
      quantumDecrypt rt key
        (toHex (fst (createCipher rt key (utf8_encode data))) @ ''|'' @
         toHex (take n (snd (createCipher rt key (utf8_encode data)))))
        = Inr data)"
proof (intro conjI impI)
  assume h: "CHR ''|'' \<notin> set seg \<and>
    \<not> (valid_tag_length (length (fromHex seg)) \<and>
       fromHex seg = take (length (fromHex seg)) (snd (createCipher rt key (utf8_encode data))))"
  then show "quantumDecrypt rt key (toHex (fst (createCipher rt key (utf8_encode data))) @ ''|'' @ seg)
        = Inl (if valid_tag_length (length (fromHex seg)) then AuthenticationError
               else TypeError_InvalidAuthTagLength)"
    by (simp add: quantumDecrypt_segments toHex_no_pipe fromHex_toHex length_toHex
        tag_accepted_cipher del: append.simps)
next
  assume "gcm_correct rt \<and> well_formed data \<and> valid_tag_length n"
  then show "quantumDecrypt rt key
        (toHex (fst (createCipher rt key (utf8_encode data))) @ ''|'' @
         toHex (take n (snd (createCipher rt key (utf8_encode data)))))
        = Inr data"
    using quantumDecrypt_prefix_tag [of rt n key data] utf8_decode_utf8_encode [of data]
    by simp
qed

theorem quantumDecrypt_tag_check_witness:
  "CHR ''|'' \<notin> set ''53545557'' \<and>
   valid_tag_length (length (fromHex ''53545557'')) \<and>
   fromHex ''53545557''
     \<noteq> take (length (fromHex ''53545557''))
          (snd (createCipher toy_runtime ''k'' (utf8_encode [104, 105]))) \<and>
   quantumDecrypt toy_runtime ''k''
     (toHex (fst (createCipher toy_runtime ''k'' (utf8_encode [104, 105]))) @ ''|'' @ ''53545557'')
     = Inl AuthenticationError \<and>
   CHR ''|'' \<notin> set ''5354'' \<and> \<not> valid_tag_length (length (fromHex ''5354'')) \<and>
   quantumDecrypt toy_runtime ''k''
     (toHex (fst (createCipher toy_runtime ''k'' (utf8_encode [104, 105]))) @ ''|'' @ ''5354'')
     = Inl TypeError_InvalidAuthTagLength \<and>
   gcm_correct toy_runtime \<and> well_formed [104, 105] \<and> valid_tag_length 8 \<and>
   quantumDecrypt toy_runtime ''k''
     (toHex (fst (createCipher toy_runtime ''k'' (utf8_encode [104, 105]))) @ ''|'' @
      toHex (take 8 (snd (createCipher toy_runtime ''k'' (utf8_encode [104, 105])))))
     = Inr [104, 105]"
proof -
  let ?c = "toHex (fst (createCipher toy_runtime ''k'' (utf8_encode [104, 105])))"
  let ?t = "snd (createCipher toy_runtime ''k'' (utf8_encode [104, 105]))"
  have e1: "fromHex ''53545557'' = [CHR 0x53, CHR 0x54, CHR 0x55, CHR 0x57]"
    and e2: "fromHex ''5354'' = [CHR 0x53, CHR 0x54]"
    by (simp_all add: unhex_def char_of_eq_iff)
  have "fromHex (toHex (take 4 ?t)) = [CHR 0x53, CHR 0x54, CHR 0x55, CHR 0x56]"
    by (simp only: toy_hi) (simp add: unhex_def char_of_eq_iff)
  then have t4: "take 4 ?t = [CHR 0x53, CHR 0x54, CHR 0x55, CHR 0x56]"
    by (simp only: fromHex_toHex)
  have l1: "length (fromHex ''53545557'') = 4" and l2: "length (fromHex ''5354'') = 2"
    by (simp_all only: e1 e2) simp_all
  have v1: "valid_tag_length (length (fromHex ''53545557''))"
    and v2: "\<not> valid_tag_length (length (fromHex ''5354''))"
    and v8: "valid_tag_length 8"
    by (simp_all only: l1 l2) (simp_all add: valid_tag_length_def)
  have n1: "fromHex ''53545557'' \<noteq> take (length (fromHex ''53545557'')) ?t"
    by (subst l1, subst t4, subst e1) simp
  have p1: "CHR ''|'' \<notin> set ''53545557''" and p2: "CHR ''|'' \<notin> set ''5354''"
    by simp_all
  have "quantumDecrypt toy_runtime ''k'' (?c @ ''|'' @ ''53545557'')
      = Inl (if valid_tag_length (length (fromHex ''53545557'')) then AuthenticationError
             else TypeError_InvalidAuthTagLength)"
    using quantumDecrypt_tag_check [of "''53545557''" toy_runtime "''k''" "[104, 105]" 8] p1 n1
    by blast
  then have r1: "quantumDecrypt toy_runtime ''k'' (?c @ ''|'' @ ''53545557'') = Inl AuthenticationError"
    using v1 by (simp only: if_True)
  have "quantumDecrypt toy_runtime ''k'' (?c @ ''|'' @ ''5354'')
      = Inl (if valid_tag_length (length (fromHex ''5354'')) then AuthenticationError
             else TypeError_InvalidAuthTagLength)"
    using quantumDecrypt_tag_check [of "''5354''" toy_runtime "''k''" "[104, 105]" 8] p2 v2
    by blast
  then have r2: "quantumDecrypt toy_runtime ''k'' (?c @ ''|'' @ ''5354'') = Inl TypeError_InvalidAuthTagLength"
    using v2 by (simp only: if_False)
  have r3: "quantumDecrypt toy_runtime ''k'' (?c @ ''|'' @ toHex (take 8 ?t)) = Inr [104, 105]"
    using quantumDecrypt_tag_check [of "''5354''" toy_runtime "''k''" "[104, 105]" 8]
      toy_gcm_correct well_formed_hi v8
    by blast
  from p1 v1 n1 r1 p2 v2 r2 toy_gcm_correct well_formed_hi v8 r3 show ?thesis
    by blast
qed








text \<open>
  C5, as stated, fails: the blob that \<open>quantumEncrypt\<close> gives for the plaintext
  \<open>hi\<close>, followed by a second pipe and \<open>00\<close>, has two pipes and is not rejected:
  what follows the second pipe is ignored and the plaintext is returned.
\<close>

theorem quantumDecrypt_two_pipes_accepted:
  "quantumDecrypt toy_runtime ''k'' (quantumEncrypt toy_runtime ''k'' [104, 105] @ ''|00'')
   = Inr [104, 105]"
  using quantumDecrypt_trailing_segment [OF toy_gcm_correct, of "''k''" "[104, 105]" "''00''"]
    utf8_decode_utf8_encode [OF well_formed_hi]
  by simp

text \<open>
  C5, amended. A string with no pipe is rejected, with the TypeError that
  \<open>Buffer.from(undefined, 'hex')\<close> throws. A string that ends after its first pipe (no
  tag segment) is rejected, with the TypeError that \<open>setAuthTag\<close> throws on an empty
  tag. In both cases no plaintext is returned; the code has no error of its own for a
  malformed blob. A string with more than one pipe is not rejected: a blob that
  \<open>quantumEncrypt\<close> produced, followed by a pipe and anything, decrypts to its
  plaintext. A string with an empty ciphertext segment is not rejected either: a pipe
  followed by the hex of the tag of the empty ciphertext is the blob of the empty
  plaintext and decrypts to the empty string.
\<close>

theorem quantumDecrypt_segment_count:
  "(CHR ''|'' \<notin> set s \<longrightarrow> quantumDecrypt rt key s = Inl TypeError_InvalidArg) \<and>
   (CHR ''|'' \<notin> set a \<longrightarrow> quantumDecrypt rt key (a @ ''|'') = Inl TypeError_InvalidAuthTagLength) \<and>
   (gcm_correct rt \<and> well_formed data \<longrightarrow>
      quantumDecrypt rt key (quantumEncrypt rt key data @ ''|'' @ rest) = Inr data) \<and>
   (gcm_correct rt \<longrightarrow>
      quantumEncrypt rt key [] = ''|'' @ toHex (snd (createCipher rt key [])) \<and>
      quantumDecrypt rt key (''|'' @ toHex (snd (createCipher rt key []))) = Inr [])"
proof (intro conjI impI)
  assume "CHR ''|'' \<notin> set s"
  then show "quantumDecrypt rt key s = Inl TypeError_InvalidArg"
    by (simp add: quantumDecrypt_def split_pipe_no_pipe)
next
  assume "CHR ''|'' \<notin> set a"
  then have "quantumDecrypt rt key (a @ ''|'' @ []) = Inl TypeError_InvalidAuthTagLength"
    by (subst quantumDecrypt_segments) (simp_all add: valid_tag_length_def)
  then show "quantumDecrypt rt key (a @ ''|'') = Inl TypeError_InvalidAuthTagLength"
    by simp
next
  assume "gcm_correct rt \<and> well_formed data"
  then show "quantumDecrypt rt key (quantumEncrypt rt key data @ ''|'' @ rest) = Inr data"
    using quantumDecrypt_trailing_segment [of rt key data rest] utf8_decode_utf8_encode [of data]
    by simp
next
  assume g: "gcm_correct rt"
  have e: "utf8_encode [] = []" by (simp add: utf8_encode_def)
  have "length (fst (createCipher rt key [])) = 0"
    using cipher_lengths [OF g, of key "[]"] by simp
  then have c: "fst (createCipher rt key []) = []" by simp
  show b: "quantumEncrypt rt key [] = ''|'' @ toHex (snd (createCipher rt key []))"
    by (simp add: quantumEncrypt_blob e c)
  have "quantumDecrypt rt key (quantumEncrypt rt key []) = Inr []"
    using quantumDecrypt_quantumEncrypt_utf8 [OF g, of key "[]"]
    by (simp add: utf8_encode_def utf8_decode_def)
  then show "quantumDecrypt rt key (''|'' @ toHex (snd (createCipher rt key []))) = Inr []"
    by (simp only: b)
qed

theorem quantumDecrypt_segment_count_witness:
  "CHR ''|'' \<notin> set ''3e3f5354'' \<and>
   quantumDecrypt toy_runtime ''k'' ''3e3f5354'' = Inl TypeError_InvalidArg \<and>
   CHR ''|'' \<notin> set ''3e3f'' \<and>
   quantumDecrypt toy_runtime ''k'' (''3e3f'' @ ''|'') = Inl TypeError_InvalidAuthTagLength \<and>
   gcm_correct toy_runtime \<and> well_formed [104, 105] \<and>
   quantumDecrypt toy_runtime ''k'' (quantumEncrypt toy_runtime ''k'' [104, 105] @ ''|'' @ ''00'')
     = Inr [104, 105] \<and>
   quantumEncrypt toy_runtime ''k'' [] = ''|'' @ toHex (snd (createCipher toy_runtime ''k'' [])) \<and>
   quantumDecrypt toy_runtime ''k'' (''|'' @ toHex (snd (createCipher toy_runtime ''k'' [])))
     = Inr []"
  using quantumDecrypt_segment_count
      [of "''3e3f5354''" toy_runtime "''k''" "''3e3f''" "[104, 105]" "''00''"]
    toy_gcm_correct well_formed_hi
  by simp

section \<open>The peg announced by \<open>adjustPiPegging\<close>\<close>

lemma pegs_append: "pegs (xs @ ys) = pegs xs @ pegs ys"
  by (induction xs rule: pegs.induct) simp_all

lemma adjustPiPegging_pegs:
  "pegs (emitted (nexus (adjustPiPegging adjustment iotData iot)))
     = pegs (emitted (nexus iot)) @ [3141590000000 + adjustment * 1000000]"
  by (simp add: adjustPiPegging_def emit_def say_def Let_def pegs_append)

text \<open>
  C1, as stated, fails: with the bound \<open>[0, 4000000000000]\<close>, one call with the
  adjustment \<open>1000000\<close> announces the peg \<open>4141590000000\<close>, above the bound.
\<close>

theorem adjustPiPegging_leaves_bound:
  "pegs (emitted (nexus (adjust_all [(1000000, [])]
      (new_IoTIntegration (new_GodHeadNexus ''quantum-key'') ''quantum-secret''))))
     = [4141590000000] \<and>
   \<not> (0 \<le> (4141590000000 :: real) \<and> (4141590000000 :: real) \<le> 4000000000000)"
  by (simp add: adjust_all_def adjustPiPegging_pegs new_IoTIntegration_def new_GodHeadNexus_def
      loadModel_request_def)

text \<open>
  C1, amended. The model computes with exact numbers; the code computes with doubles,
  and the two agree when the adjustment is a whole number of magnitude at most
  \<open>5000000000\<close> (then \<open>adjustment * 1000000\<close> and the sum are whole numbers below
  \<open>2^53\<close>, which doubles represent exactly). For every finite sequence of calls of
  \<open>adjustPiPegging\<close> with such adjustments, the peg announced by each call is
  \<open>3141590000000 + 1000000 * adjustment\<close> for that call's adjustment: it is computed
  from the fixed base, not from the previous peg, and it is not clamped to any bound.
\<close>

theorem adjustPiPegging_pegs_unclamped:
  assumes "list_all (\<lambda>(adjustment, iotData). adjustment \<in> \<int> \<and> \<bar>adjustment\<bar> \<le> 5000000000) calls"
  shows "pegs (emitted (nexus (adjust_all calls iot)))
     = pegs (emitted (nexus iot))
       @ map (\<lambda>(adjustment, iotData). 3141590000000 + adjustment * 1000000) calls"
proof -
  have "pegs (emitted (nexus (foldl (\<lambda>s (adjustment, iotData). adjustPiPegging adjustment iotData s) iot calls)))
     = pegs (emitted (nexus iot))
       @ map (\<lambda>(adjustment, iotData). 3141590000000 + adjustment * 1000000) calls"
    by (induction calls arbitrary: iot) (simp_all add: adjustPiPegging_pegs split: prod.splits)
  then show ?thesis by (simp add: adjust_all_def)
qed

theorem adjustPiPegging_pegs_unclamped_witness:
  "list_all (\<lambda>(adjustment, iotData). adjustment \<in> \<int> \<and> \<bar>adjustment\<bar> \<le> 5000000000)
     [(1000000 :: real, []), (- 50000, [(''energyPrice'', 60 :: real)])] \<and>
   pegs (emitted (nexus (adjust_all [(1000000, []), (- 50000, [(''energyPrice'', 60)])]
      (new_IoTIntegration (new_GodHeadNexus ''quantum-key'') ''quantum-secret''))))
     = [4141590000000, 3091590000000]"
proof -
  have h: "list_all (\<lambda>(adjustment, iotData). adjustment \<in> \<int> \<and> \<bar>adjustment\<bar> \<le> 5000000000)
     [(1000000 :: real, []), (- 50000, [(''energyPrice'', 60 :: real)])]"
    by simp
  show ?thesis
    using adjustPiPegging_pegs_unclamped [OF h,
        of "new_IoTIntegration (new_GodHeadNexus ''quantum-key'') ''quantum-secret''"] h
    by (simp add: new_IoTIntegration_def new_GodHeadNexus_def loadModel_request_def)
qed

section \<open>The status query\<close>

lemma say_lastPrediction [simp]: "lastPrediction (say l nx) = lastPrediction nx"
  by (simp add: say_def)
lemma emit_lastPrediction [simp]: "lastPrediction (emit ev nx) = lastPrediction nx"
  by (simp add: emit_def handleMarketAlert_def adjustPegging_def Let_def split: event.splits)
lemma loadModel_request_lastPrediction [simp]: "lastPrediction (loadModel_request nx) = lastPrediction nx"
  by (simp add: loadModel_request_def)
lemma loadModel_settle_lastPrediction [simp]: "lastPrediction (loadModel_settle r nx) = lastPrediction nx"
  by (simp add: loadModel_settle_def split: option.splits)
lemma loadModel_lastPrediction [simp]: "lastPrediction (loadModel r nx) = lastPrediction nx"
  by (simp add: loadModel_def)
lemma predictAdjustment_body_lastPrediction [simp]:
  "lastPrediction (snd (predictAdjustment_body md nx)) = lastPrediction nx"
  by (simp add: predictAdjustment_body_def Let_def split: option.splits)
lemma predictAdjustment_lastPrediction [simp]:
  "lastPrediction (snd (predictAdjustment r md nx)) = lastPrediction nx"
  by (simp add: predictAdjustment_def)
lemma fetchIoTSensors_lastPrediction [simp]:
  "lastPrediction (snd (fetchIoTSensors g ids nx)) = lastPrediction nx"
  by (simp add: fetchIoTSensors_def Let_def split: option.splits)
lemma triggerFederatedTraining_lastPrediction [simp]:
  "lastPrediction (snd (triggerFederatedTraining rt s c nx)) = lastPrediction nx"
  by (simp add: triggerFederatedTraining_def Let_def split: option.splits)
lemma queryContractOracle_lastPrediction [simp]:
  "lastPrediction (snd (queryContractOracle r nx)) = lastPrediction nx"
proof (cases "predictAdjustment r [314159, 1000] nx")
  case (Pair res nx1)
  have "lastPrediction (snd (predictAdjustment r [314159, 1000] nx)) = lastPrediction nx"
    by (rule predictAdjustment_lastPrediction)
  with Pair have "lastPrediction nx1 = lastPrediction nx" by simp
  with Pair show ?thesis
    by (cases res) (simp_all add: queryContractOracle_def)
qed
lemma run_op_lastPrediction: "lastPrediction (run_op rt nx op) = lastPrediction nx"
  by (cases op) simp_all
lemma run_ops_lastPrediction: "lastPrediction (run_ops rt ops nx) = lastPrediction nx"
  unfolding run_ops_def by (induction ops arbitrary: nx) (simp_all add: run_op_lastPrediction)

text \<open>
  C10. After every finite sequence of hub operations on a hub just constructed, whatever
  the loader, the sensor API and the store answer, the status snapshot of
  \<open>getNexusStatus\<close> has \<open>lastPrediction\<close> equal to \<open>null\<close>: no operation assigns
  the field.
\<close>

theorem getNexusStatus_lastPrediction_null:
  "status_lastPrediction (getNexusStatus (run_ops rt ops (new_GodHeadNexus key))) = None"
  by (simp add: getNexusStatus_def run_ops_lastPrediction new_GodHeadNexus_def loadModel_request_def)

section \<open>Model loading\<close>

lemma predictAdjustment_enter_no_model:
  "model nx = None \<Longrightarrow>
   model (predictAdjustment_enter md nx) = None \<and>
   loadRequests (predictAdjustment_enter md nx) = loadRequests nx + 1"
  by (simp add: predictAdjustment_enter_def loadModel_request_def)

text \<open>
  C9, amended. Each \<open>predictAdjustment\<close> call that starts while no model is loaded
  requests a load of its own: \<open>n\<close> such calls started before any load settles make
  \<open>n\<close> calls of \<open>tf.loadLayersModel\<close>. A load in flight is not shared.
\<close>

theorem predictAdjustment_enter_each_requests_load:
  assumes "model nx = None"
  shows "loadRequests (enter_all calls nx) = loadRequests nx + length calls"
proof -
  have "model nx = None \<Longrightarrow>
      loadRequests (foldl (\<lambda>s marketData. predictAdjustment_enter marketData s) nx calls)
        = loadRequests nx + length calls"
    by (induction calls arbitrary: nx) (simp_all add: predictAdjustment_enter_no_model)
  with assms show ?thesis by (simp add: enter_all_def)
qed

theorem predictAdjustment_enter_each_requests_load_witness:
  "model (new_GodHeadNexus ''quantum-key'') = None \<and>
   loadRequests (enter_all [[1], [2], [3]] (new_GodHeadNexus ''quantum-key''))
     = loadRequests (new_GodHeadNexus ''quantum-key'') + length [[1 :: real], [2], [3]]"
proof -
  have h: "model (new_GodHeadNexus ''quantum-key'') = None"
    by (simp add: new_GodHeadNexus_def loadModel_request_def)
  show ?thesis
    using predictAdjustment_enter_each_requests_load [OF h, of "[[1], [2], [3]]"] h by simp
qed

text \<open>
  C9, as stated, fails: on a hub just constructed (one load requested by the constructor),
  two \<open>predictAdjustment\<close> calls started together bring the number of load requests
  to three: each call triggered a load.
\<close>

theorem predictAdjustment_concurrent_calls_load_twice:
  "loadRequests (new_GodHeadNexus ''quantum-key'') = 1 \<and>
  loadRequests (enter_all [[314159, 1000], [314159, 1000]] (new_GodHeadNexus ''quantum-key'')) = 3"
  by (simp add: enter_all_def predictAdjustment_enter_def new_GodHeadNexus_def loadModel_request_def)

lemma predictAdjustment_load_fails:
  "model nx = None \<Longrightarrow>
   fst (predictAdjustment None md nx) = Inl TypeError_NullModel \<and>
   model (snd (predictAdjustment None md nx)) = None"
  by (simp add: predictAdjustment_def predictAdjustment_body_def loadModel_def loadModel_settle_def
      loadModel_request_def say_def)

text \<open>
  C6, on the code: the load started by the constructor fails, three \<open>predictAdjustment\<close>
  calls follow and the loader fails in each, and a fourth call is made with the loader
  failing again. The fourth call ends, and what it reports is the TypeError of reading
  \<open>predict\<close> on \<open>null\<close>: \<open>loadModel\<close> has caught and logged the loader's error.
\<close>

theorem predictAdjustment_without_model_TypeError:
  "fst (predictAdjustment None [314159, 1000]
        (run_ops toy_runtime
           [OpLoadSettles None,
            OpPredictAdjustment None [314159, 1000],
            OpPredictAdjustment None [314159, 1000],
            OpPredictAdjustment None [314159, 1000]]
           (new_GodHeadNexus ''quantum-key'')))
     = Inl TypeError_NullModel"
  by (simp add: run_ops_def predictAdjustment_load_fails loadModel_settle_def say_def
      new_GodHeadNexus_def loadModel_request_def)

section \<open>The training trigger in \<open>processSensorData\<close>\<close>

lemma trainings_append: "trainings (xs @ ys) = trainings xs @ trainings ys"
  by (induction xs rule: trainings.induct) simp_all

lemma say_observed [simp]: "observed (say l nx) = observed nx"
  by (simp add: say_def observed_def)

lemma emit_observed:
  "observed (emit ev nx) = (quantumKey nx, ipfsAdded nx, trainings (emitted nx) @ trainings [ev])"
  by (cases ev)
     (simp_all add: emit_def observed_def trainings_append handleMarketAlert_def adjustPegging_def
        say_def Let_def)

lemma loadModel_observed [simp]: "observed (loadModel r nx) = observed nx"
  by (cases r)
     (simp_all add: loadModel_def loadModel_settle_def loadModel_request_def emit_observed,
      simp_all add: observed_def say_def)

lemma predictAdjustment_body_observed [simp]:
  "observed (snd (predictAdjustment_body md nx)) = observed nx"
  by (cases "model nx")
     (simp_all add: predictAdjustment_body_def Let_def emit_observed, simp add: observed_def say_def)

lemma predictAdjustment_observed [simp]:
  "observed (snd (predictAdjustment r md nx)) = observed nx"
  by (simp add: predictAdjustment_def)

lemma adjustPiPegging_observed [simp]:
  "observed (nexus (adjustPiPegging a d iot)) = observed (nexus iot)"
  by (simp add: adjustPiPegging_def Let_def emit_observed) (simp add: observed_def say_def)

lemma triggerFederatedTraining_stored:
  "triggerFederatedTraining rt (Some cid) c nx = (r, nx') \<Longrightarrow>
   r = Inr cid \<and>
   observed nx' = (quantumKey nx, ipfsAdded nx @ [quantumEncrypt rt (quantumKey nx) (stringify rt c)],
                   trainings (emitted nx) @ [(cid, c)])"
  by (auto simp: triggerFederatedTraining_def Let_def emit_observed)
     (simp_all add: observed_def say_def)

lemma predictAdjustment_available:
  "model nx \<noteq> None \<or> r \<noteq> None \<Longrightarrow> \<exists>adjustment. fst (predictAdjustment r md nx) = Inr adjustment"
  by (cases "model nx"; cases r)
     (auto simp: predictAdjustment_def predictAdjustment_body_def loadModel_def loadModel_settle_def
        loadModel_request_def emit_def say_def Let_def)

lemma processSensorData_below_threshold:
  assumes "\<not> exceeds (map_of data ''energyPrice'') 50"
  shows "observed (nexus (snd (processSensorData rt ans topic data iot))) = observed (nexus iot)"
proof -
  let ?iot1 = "iot\<lparr>sensorData :=
                   set_prop topic
                     \<lparr> raw = data, encrypted = quantumEncrypt rt (iot_quantumKey iot) (stringify rt (reading_json data)), timestamp = now_cache ans \<rparr>
                     (sensorData iot)\<rparr>"
  let ?features = "[num_or (map_of data ''price'') 314159,
             num_or (map_of data ''volume'') 1000,
             num_or (map_of data ''timestamp'') (now_feature ans),
             num_or (map_of data ''energyPrice'') 0,
             num_or (map_of data ''commodityIndex'') 0]"
  obtain res nx1 where P: "predictAdjustment (loaded ans) ?features (nexus ?iot1) = (res, nx1)"
    by (cases "predictAdjustment (loaded ans) ?features (nexus ?iot1)") blast
  have "observed (snd (predictAdjustment (loaded ans) ?features (nexus ?iot1))) = observed (nexus ?iot1)"
    by (rule predictAdjustment_observed)
  with P have O: "observed nx1 = observed (nexus iot)" by simp
  have A: "observed (nexus (adjustPiPegging a data (?iot1\<lparr>nexus := nx1\<rparr>))) = observed (nexus iot)" for a
    using O by simp
  show ?thesis
    using assms P O A by (cases res) (simp_all add: processSensorData_def Let_def)
qed

lemma processSensorData_above_threshold:
  assumes "exceeds (map_of data ''energyPrice'') 50"
    and "model (nexus iot) \<noteq> None \<or> loaded ans \<noteq> None"
    and "stored ans = Some cid"
  shows "fst (processSensorData rt ans topic data iot) = Inr () \<and>
    observed (nexus (snd (processSensorData rt ans topic data iot)))
      = (quantumKey (nexus iot),
         ipfsAdded (nexus iot) @
           [quantumEncrypt rt (quantumKey (nexus iot))
              (stringify rt (JObj [(''sensorData'', reading_json data)]))],
         trainings (emitted (nexus iot)) @ [(cid, JObj [(''sensorData'', reading_json data)])])"
proof -
  let ?iot1 = "iot\<lparr>sensorData :=
                   set_prop topic
                     \<lparr> raw = data, encrypted = quantumEncrypt rt (iot_quantumKey iot) (stringify rt (reading_json data)), timestamp = now_cache ans \<rparr>
                     (sensorData iot)\<rparr>"
  let ?features = "[num_or (map_of data ''price'') 314159,
             num_or (map_of data ''volume'') 1000,
             num_or (map_of data ''timestamp'') (now_feature ans),
             num_or (map_of data ''energyPrice'') 0,
             num_or (map_of data ''commodityIndex'') 0]"
  let ?c = "JObj [(''sensorData'', reading_json data)]"
  obtain res nx1 where P: "predictAdjustment (loaded ans) ?features (nexus ?iot1) = (res, nx1)"
    by (cases "predictAdjustment (loaded ans) ?features (nexus ?iot1)") blast
  have "\<exists>adjustment. fst (predictAdjustment (loaded ans) ?features (nexus ?iot1)) = Inr adjustment"
    using assms(2) by (intro predictAdjustment_available) simp
  with P obtain adjustment where R: "res = Inr adjustment" by auto
  have "observed (snd (predictAdjustment (loaded ans) ?features (nexus ?iot1))) = observed (nexus ?iot1)"
    by (rule predictAdjustment_observed)
  with P have O: "observed nx1 = observed (nexus iot)" by simp
  let ?iot2 = "adjustPiPegging adjustment data (?iot1\<lparr>nexus := nx1\<rparr>)"
  have A: "observed (nexus ?iot2) = observed (nexus iot)"
    using O by simp
  obtain r3 nx3 where T: "triggerFederatedTraining rt (Some cid) ?c (nexus ?iot2) = (r3, nx3)"
    by (cases "triggerFederatedTraining rt (Some cid) ?c (nexus ?iot2)") blast
  from triggerFederatedTraining_stored [OF T] A
  have T3: "r3 = Inr cid"
    and O3: "observed nx3 = (quantumKey (nexus iot),
         ipfsAdded (nexus iot) @ [quantumEncrypt rt (quantumKey (nexus iot)) (stringify rt ?c)],
         trainings (emitted (nexus iot)) @ [(cid, ?c)])"
    by (simp_all add: observed_def)
  show ?thesis
    using assms(1,3) P R T T3 O3 by (simp add: processSensorData_def Let_def)
qed

lemma example_iot_nexus:
  "model (nexus example_iot) = Some example_model"
  "quantumKey (nexus example_iot) = ''quantum-key''"
  "ipfsAdded (nexus example_iot) = []"
  "emitted (nexus example_iot) = [ModelLoaded]"
  "console (nexus example_iot) =
     [Info ''GodHead Nexus AI model loaded from IPFS.'', Info ''Nexus ready for predictions.'']"
  by (simp_all add: example_iot_def new_IoTIntegration_def loadModel_settle_def new_GodHeadNexus_def
      loadModel_request_def emit_def say_def)

text \<open>
  C8, on the code: a reading with \<open>energyPrice = 60\<close> arrives, the model is loaded,
  and \<open>ipfs.add\<close> rejects. \<open>processSensorData\<close> ends with the store's error, which
  neither it nor \<open>triggerFederatedTraining\<close> catches, and nothing is written to the
  console about it (the console holds the lines up to the peg announcement only).
\<close>

theorem processSensorData_store_error_propagates:
  "fst (processSensorData toy_runtime (example_answers None) ''pi/sensors/energy''
          [(''energyPrice'', 60)] example_iot) = Inl IpfsError \<and>
   console (nexus (snd (processSensorData toy_runtime (example_answers None) ''pi/sensors/energy''
          [(''energyPrice'', 60)] example_iot)))
     = [Info ''GodHead Nexus AI model loaded from IPFS.'',
        Info ''Nexus ready for predictions.'',
        InfoNum ''Nexus Prediction: Adjust PI by '' (1 / 1000),
        InfoNum ''New dynamic PI peg: '' 3141590001000]"
  by (simp add: processSensorData_def predictAdjustment_def predictAdjustment_body_def
      adjustPiPegging_def triggerFederatedTraining_def example_iot_nexus example_answers_def
      example_model_def emit_def say_def handleMarketAlert_def exceeds_def num_or_def Let_def)

text \<open>
  C7, as stated, fails: for a reading whose field \<open>energy_price\<close> is \<open>60\<close>, with
  the model loaded and the store answering, the call ends normally with no store call
  and no training event. The gate reads the field \<open>energyPrice\<close>.
\<close>

theorem processSensorData_energy_price_no_training:
  "fst (processSensorData toy_runtime (example_answers (Some ''QmCid'')) ''pi/sensors/energy''
          [(''energy_price'', 60)] example_iot) = Inr () \<and>
   ipfsAdded (nexus (snd (processSensorData toy_runtime (example_answers (Some ''QmCid''))
          ''pi/sensors/energy'' [(''energy_price'', 60)] example_iot))) = [] \<and>
   trainings (emitted (nexus (snd (processSensorData toy_runtime (example_answers (Some ''QmCid''))
          ''pi/sensors/energy'' [(''energy_price'', 60)] example_iot)))) = []"
  by (simp add: processSensorData_def predictAdjustment_def predictAdjustment_body_def
      adjustPiPegging_def example_iot_nexus example_answers_def
      example_model_def emit_def say_def handleMarketAlert_def exceeds_def num_or_def Let_def)

text \<open>
  C7, amended. When a reading whose field \<open>energyPrice\<close> equals \<open>60\<close> is processed
  (threshold \<open>50\<close>), a model being loaded or loadable and the store answering with a
  fingerprint, the contribution \<open>{sensorData: reading}\<close> is encrypted and handed to the
  store once, and one training event carrying the returned fingerprint is emitted. When a
  reading whose field \<open>energyPrice\<close> equals \<open>10\<close> is processed, no store call is
  made and no training event is emitted.
\<close>

theorem processSensorData_training_gate:
  "(map_of data ''energyPrice'' = Some 60 \<and>
    (model (nexus iot) \<noteq> None \<or> loaded ans \<noteq> None) \<and> stored ans = Some cid \<longrightarrow>
      fst (processSensorData rt ans topic data iot) = Inr () \<and>
      ipfsAdded (nexus (snd (processSensorData rt ans topic data iot)))
        = ipfsAdded (nexus iot) @
          [quantumEncrypt rt (quantumKey (nexus iot))
             (stringify rt (JObj [(''sensorData'', reading_json data)]))] \<and>
      trainings (emitted (nexus (snd (processSensorData rt ans topic data iot))))
        = trainings (emitted (nexus iot)) @ [(cid, JObj [(''sensorData'', reading_json data)])]) \<and>
   (map_of data ''energyPrice'' = Some 10 \<longrightarrow>
      ipfsAdded (nexus (snd (processSensorData rt ans topic data iot))) = ipfsAdded (nexus iot) \<and>
      trainings (emitted (nexus (snd (processSensorData rt ans topic data iot))))
        = trainings (emitted (nexus iot)))"
proof (intro conjI impI)
  assume h: "map_of data ''energyPrice'' = Some 60 \<and>
    (model (nexus iot) \<noteq> None \<or> loaded ans \<noteq> None) \<and> stored ans = Some cid"
  then have e: "exceeds (map_of data ''energyPrice'') 50" by (simp add: exceeds_def)
  from processSensorData_above_threshold [OF e, of iot ans cid rt topic] h
  show "fst (processSensorData rt ans topic data iot) = Inr ()"
    and "ipfsAdded (nexus (snd (processSensorData rt ans topic data iot)))
        = ipfsAdded (nexus iot) @
          [quantumEncrypt rt (quantumKey (nexus iot))
             (stringify rt (JObj [(''sensorData'', reading_json data)]))]"
    and "trainings (emitted (nexus (snd (processSensorData rt ans topic data iot))))
        = trainings (emitted (nexus iot)) @ [(cid, JObj [(''sensorData'', reading_json data)])]"
    by (simp_all add: observed_def)
next
  assume "map_of data ''energyPrice'' = Some 10"
  then have e: "\<not> exceeds (map_of data ''energyPrice'') 50" by (simp add: exceeds_def)
  from processSensorData_below_threshold [OF e, of rt ans topic iot]
  show "ipfsAdded (nexus (snd (processSensorData rt ans topic data iot))) = ipfsAdded (nexus iot)"
    and "trainings (emitted (nexus (snd (processSensorData rt ans topic data iot))))
        = trainings (emitted (nexus iot))"
    by (simp_all add: observed_def)
qed

theorem processSensorData_training_gate_witness:
  "map_of [(''energyPrice'', 60 :: real)] ''energyPrice'' = Some 60 \<and>
   model (nexus example_iot) \<noteq> None \<and>
   stored (example_answers (Some ''QmCid'')) = Some ''QmCid'' \<and>
   fst (processSensorData toy_runtime (example_answers (Some ''QmCid'')) ''pi/sensors/energy''
          [(''energyPrice'', 60)] example_iot) = Inr () \<and>
   ipfsAdded (nexus (snd (processSensorData toy_runtime (example_answers (Some ''QmCid''))
          ''pi/sensors/energy'' [(''energyPrice'', 60)] example_iot)))
     = [quantumEncrypt toy_runtime ''quantum-key'' [123, 125]] \<and>
   trainings (emitted (nexus (snd (processSensorData toy_runtime (example_answers (Some ''QmCid''))
          ''pi/sensors/energy'' [(''energyPrice'', 60)] example_iot))))
     = [(''QmCid'', JObj [(''sensorData'', JObj [(''energyPrice'', JNum 60)])])] \<and>
   map_of [(''energyPrice'', 10 :: real)] ''energyPrice'' = Some 10 \<and>
   ipfsAdded (nexus (snd (processSensorData toy_runtime (example_answers (Some ''QmCid''))
          ''pi/sensors/energy'' [(''energyPrice'', 10)] example_iot))) = [] \<and>
   trainings (emitted (nexus (snd (processSensorData toy_runtime (example_answers (Some ''QmCid''))
          ''pi/sensors/energy'' [(''energyPrice'', 10)] example_iot)))) = []"
  using processSensorData_training_gate
      [of "[(''energyPrice'', 60)]" example_iot "example_answers (Some ''QmCid'')" "''QmCid''"
          toy_runtime "''pi/sensors/energy''"]
    processSensorData_training_gate
      [of "[(''energyPrice'', 10)]" example_iot "example_answers (Some ''QmCid'')" "''QmCid''"
          toy_runtime "''pi/sensors/energy''"]
  by (simp add: example_iot_nexus example_answers_def reading_json_def toy_runtime_def)

end
